theory Spec2Isabelle
  imports Main "HOL-Library.Word"
begin

unbundle bit_operations_syntax

section \<open>Hardware state\<close>

text \<open>
  The driver works on four 8-bit port registers of the microcontroller: the output
  registers of port 1 (onboard red LED, bit 0), port 2 (tri-color LED, bits 0..2) and
  port 9 (PMOD 8LD, eight LEDs), and the input register of port 10 (PMOD SWT, four
  slide switches). The input register is driven by the environment: \<open>P10_IN s k\<close> is
  the value the register holds at the \<open>k\<close>-th read of the run, and \<open>P10_reads\<close>
  counts the reads made so far. Every access that is visible from outside (a store to
  an output register, a blocking delay, a read of the switches) is appended to
  \<open>trace\<close> in program order.
\<close>

type_synonym uint8_t = "8 word"

datatype event =
    Write_P1 uint8_t
  | Write_P2 uint8_t
  | Write_P9 uint8_t
  | Delay1ms nat
  | Read_SWT uint8_t

record hw =
  P1_OUT :: uint8_t
  P2_OUT :: uint8_t
  P9_OUT :: uint8_t
  P10_IN :: "nat \<Rightarrow> uint8_t"
  P10_reads :: nat
  trace :: "event list"

section \<open>Constants of GPIO.c\<close>

definition RED_LED_OFF :: uint8_t where "RED_LED_OFF = 0x00"
definition RED_LED_ON :: uint8_t where "RED_LED_ON = 0x01"

definition RGB_LED_OFF :: uint8_t where "RGB_LED_OFF = 0x00"
definition RGB_LED_RED :: uint8_t where "RGB_LED_RED = 0x01"
definition RGB_LED_GREEN :: uint8_t where "RGB_LED_GREEN = 0x02"
definition RGB_LED_YELLOW :: uint8_t where "RGB_LED_YELLOW = 0x03"
definition RGB_LED_BLUE :: uint8_t where "RGB_LED_BLUE = 0x04"
definition RGB_LED_PINK :: uint8_t where "RGB_LED_PINK = 0x05"
definition RGB_LED_SKY_BLUE :: uint8_t where "RGB_LED_SKY_BLUE = 0x06"
definition RGB_LED_WHITE :: uint8_t where "RGB_LED_WHITE = 0x07"

definition PMOD_8LD_ALL_OFF :: uint8_t where "PMOD_8LD_ALL_OFF = 0x00"
definition PMOD_8LD_ALL_ON :: uint8_t where "PMOD_8LD_ALL_ON = 0xFF"

section \<open>Register access functions\<close>

text \<open>
  Modelled from the spec: \<open>Clock_Delay1ms\<close> is declared in inc/Clock.h and its body is
  not in the source files of the driver. The spec describes it as a blocking delay
  parameterized in milliseconds that touches no port register, so the model records
  the requested duration in the trace and changes nothing else.
\<close>

definition Clock_Delay1ms :: "nat \<Rightarrow> hw \<Rightarrow> hw" where
  "Clock_Delay1ms n s = s\<lparr>trace := trace s @ [Delay1ms n]\<rparr>"

text \<open>\<open>P1->OUT = (P1->OUT & 0xFE) | led_value;\<close>\<close>

definition LED1_Output :: "uint8_t \<Rightarrow> hw \<Rightarrow> hw" where
  "LED1_Output led_value s =
     (let v = (P1_OUT s AND 0xFE) OR led_value
      in s\<lparr>P1_OUT := v, trace := trace s @ [Write_P1 v]\<rparr>)"

text \<open>\<open>return P1->OUT & 0x01;\<close>\<close>

definition LED1_Status :: "hw \<Rightarrow> uint8_t" where
  "LED1_Status s = P1_OUT s AND 0x01"

text \<open>\<open>P2->OUT = (P2->OUT & 0xF8) | led_value;\<close>\<close>

definition LED2_Output :: "uint8_t \<Rightarrow> hw \<Rightarrow> hw" where
  "LED2_Output led_value s =
     (let v = (P2_OUT s AND 0xF8) OR led_value
      in s\<lparr>P2_OUT := v, trace := trace s @ [Write_P2 v]\<rparr>)"

text \<open>\<open>return P2->OUT & 0x07;\<close>\<close>

definition LED2_Status :: "hw \<Rightarrow> uint8_t" where
  "LED2_Status s = P2_OUT s AND 0x07"

text \<open>\<open>P9->OUT = led_value; return P9->OUT;\<close>\<close>

definition PMOD_8LD_Output :: "uint8_t \<Rightarrow> hw \<Rightarrow> uint8_t \<times> hw" where
  "PMOD_8LD_Output led_value s =
     (let s = s\<lparr>P9_OUT := led_value, trace := trace s @ [Write_P9 led_value]\<rparr>
      in (P9_OUT s, s))"

text \<open>\<open>return P10->IN & 0xF;\<close> Each call consumes one value of the input register.\<close>

definition Get_PMOD_SWT_Status :: "hw \<Rightarrow> uint8_t \<times> hw" where
  "Get_PMOD_SWT_Status s =
     (let switch_status = P10_IN s (P10_reads s) AND 0xF
      in (switch_status,
          s\<lparr>P10_reads := P10_reads s + 1, trace := trace s @ [Read_SWT switch_status]\<rparr>))"

section \<open>Display routines\<close>

text \<open>
  \<open>LED_Pattern_1\<close>: a \<open>switch\<close> on the button code with the four cases
  0x00, 0x10, 0x02, 0x12 and no \<open>default\<close>.
\<close>

definition LED_Pattern_1 :: "uint8_t \<Rightarrow> hw \<Rightarrow> hw" where
  "LED_Pattern_1 button_status s =
     (if button_status = 0x00 then
        (let s = snd (PMOD_8LD_Output PMOD_8LD_ALL_OFF s);
             s = LED1_Output RED_LED_ON s;
             s = LED2_Output RGB_LED_GREEN s;
             s = Clock_Delay1ms 1000 s;
             s = LED1_Output RED_LED_OFF s;
             s = LED2_Output RGB_LED_OFF s;
             s = Clock_Delay1ms 1000 s
         in s)
      else if button_status = 0x10 then
        (let s = LED1_Output RED_LED_ON s;
             s = LED2_Output RGB_LED_OFF s;
             s = snd (PMOD_8LD_Output 0x55 s)
         in s)
      else if button_status = 0x02 then
        (let s = LED1_Output RED_LED_OFF s;
             s = LED2_Output RGB_LED_PINK s;
             s = snd (PMOD_8LD_Output 0xAA s)
         in s)
      else if button_status = 0x12 then
        (let s = LED1_Output RED_LED_OFF s;
             s = LED2_Output RGB_LED_OFF s;
             s = snd (PMOD_8LD_Output PMOD_8LD_ALL_ON s)
         in s)
      else s)"

text \<open>
  The loops of patterns 2 to 5 are split into the loop body, which returns whether its
  \<open>break\<close> was taken, and the loop itself. The counter \<open>led_count\<close> is a C \<open>int\<close>;
  it stays between 0 and 256 in every run, so it is modelled by an unbounded integer,
  and the conversion to the \<open>uint8_t\<close> parameter of \<open>PMOD_8LD_Output\<close> is
  \<open>word_of_int\<close>. The loop functions return the final value of the counter together
  with the state.
\<close>

definition LED_Pattern_2_body :: "int \<Rightarrow> hw \<Rightarrow> bool \<times> hw" where
  "LED_Pattern_2_body led_count s =
     (let s = snd (PMOD_8LD_Output (word_of_int led_count) s);
          s = Clock_Delay1ms 100 s;
          (switch_status, s) = Get_PMOD_SWT_Status s
      in (switch_status \<noteq> 0x01, s))"

function LED_Pattern_2_for :: "int \<Rightarrow> hw \<Rightarrow> int \<times> hw" where
  "LED_Pattern_2_for led_count s =
     (if led_count \<le> 0xFF then
        (let (break, s') = LED_Pattern_2_body led_count s
         in if break then (led_count, s') else LED_Pattern_2_for (led_count + 1) s')
      else (led_count, s))"
  by pat_completeness auto
termination
  by (relation "measure (\<lambda>(led_count, s). nat (256 - led_count))") auto

definition LED_Pattern_2 :: "hw \<Rightarrow> hw" where
  "LED_Pattern_2 s =
     (let s = LED1_Output RED_LED_ON s;
          s = LED2_Output RGB_LED_RED s
      in snd (LED_Pattern_2_for 0 s))"

definition LED_Pattern_3_body :: "int \<Rightarrow> hw \<Rightarrow> bool \<times> hw" where
  "LED_Pattern_3_body led_count s =
     (let s = snd (PMOD_8LD_Output (word_of_int led_count) s);
          s = Clock_Delay1ms 100 s;
          (switch_status, s) = Get_PMOD_SWT_Status s
      in (switch_status \<noteq> 0x02, s))"

function LED_Pattern_3_for :: "int \<Rightarrow> hw \<Rightarrow> int \<times> hw" where
  "LED_Pattern_3_for led_count s =
     (if led_count \<ge> 0 then
        (let (break, s') = LED_Pattern_3_body led_count s
         in if break then (led_count, s') else LED_Pattern_3_for (led_count - 1) s')
      else (led_count, s))"
  by pat_completeness auto
termination
  by (relation "measure (\<lambda>(led_count, s). nat (led_count + 1))") auto

definition LED_Pattern_3 :: "hw \<Rightarrow> hw" where
  "LED_Pattern_3 s =
     (let s = LED1_Output RED_LED_OFF s;
          s = LED2_Output RGB_LED_BLUE s
      in snd (LED_Pattern_3_for 0xFF s))"

text \<open>
  \<open>LED_Pattern_4\<close> is a \<open>while(1)\<close> that only a \<open>break\<close> leaves: the routine need
  not return, and \<open>None\<close> is the run that never does.
\<close>

definition LED_Pattern_4_body :: "hw \<Rightarrow> bool \<times> hw" where
  "LED_Pattern_4_body s =
     (let s = snd (PMOD_8LD_Output PMOD_8LD_ALL_ON s);
          s = LED1_Output RED_LED_ON s;
          s = LED2_Output RGB_LED_BLUE s;
          s = Clock_Delay1ms 1000 s;
          s = snd (PMOD_8LD_Output PMOD_8LD_ALL_OFF s);
          s = LED1_Output RED_LED_OFF s;
          s = LED2_Output RGB_LED_OFF s;
          s = Clock_Delay1ms 1000 s;
          (switch_status, s) = Get_PMOD_SWT_Status s
      in (switch_status \<noteq> 0x04, s))"

partial_function (option) LED_Pattern_4 :: "hw \<Rightarrow> hw option" where
  "LED_Pattern_4 s =
     (let (break, s') = LED_Pattern_4_body s
      in if break then Some s' else LED_Pattern_4 s')"

text \<open>
  The loop of \<open>LED_Pattern_5\<close> doubles its counter. Started at a counter that is not
  positive it would not advance, so the loop is a partial function as well; that it
  returns from the counter 1 the routine starts it at is proved below.
\<close>

definition LED_Pattern_5_body :: "int \<Rightarrow> hw \<Rightarrow> bool \<times> hw" where
  "LED_Pattern_5_body led_count s =
     (let s = snd (PMOD_8LD_Output (word_of_int led_count) s);
          s = Clock_Delay1ms 500 s;
          (switch_status, s) = Get_PMOD_SWT_Status s
      in (switch_status \<noteq> 0x08, s))"

partial_function (option) LED_Pattern_5_for :: "int \<Rightarrow> hw \<Rightarrow> (int \<times> hw) option" where
  "LED_Pattern_5_for led_count s =
     (if led_count \<le> 128 then
        (let (break, s') = LED_Pattern_5_body led_count s
         in if break then Some (led_count, s') else LED_Pattern_5_for (led_count * 2) s')
      else Some (led_count, s))"

definition LED_Pattern_5 :: "hw \<Rightarrow> hw option" where
  "LED_Pattern_5 s =
     (let s = LED1_Output RED_LED_OFF s;
          s = LED2_Output RGB_LED_OFF s
      in map_option snd (LED_Pattern_5_for 0x01 s))"

section \<open>Pattern selector\<close>

text \<open>
  \<open>LED_Controller\<close>: a \<open>switch\<close> on the switch code with the cases 0x00, 0x01, 0x02,
  0x04, 0x08 and a \<open>default\<close> that calls \<open>LED_Pattern_1\<close>.
\<close>

definition LED_Controller :: "uint8_t \<Rightarrow> uint8_t \<Rightarrow> hw \<Rightarrow> hw option" where
  "LED_Controller button_status switch_status s =
     (if switch_status = 0x00 then Some (LED_Pattern_1 button_status s)
      else if switch_status = 0x01 then Some (LED_Pattern_2 s)
      else if switch_status = 0x02 then Some (LED_Pattern_3 s)
      else if switch_status = 0x04 then LED_Pattern_4 s
      else if switch_status = 0x08 then LED_Pattern_5 s
      else Some (LED_Pattern_1 button_status s))"

declare LED_Pattern_2_for.simps [simp del]
declare LED_Pattern_3_for.simps [simp del]
declare LED_Pattern_4.simps [code]
declare LED_Pattern_5_for.simps [code]

section \<open>Vocabulary of the properties\<close>

text \<open>
  \<open>emitted s s'\<close> is what a run from \<open>s\<close> to \<open>s'\<close> added to the trace, and
  \<open>resample s j\<close> is the switch code that the \<open>j\<close>-th call of
  \<open>Get_PMOD_SWT_Status\<close> after \<open>s\<close> returns (the first one being \<open>j = 0\<close>).
\<close>

definition emitted :: "hw \<Rightarrow> hw \<Rightarrow> event list" where
  "emitted s s' = drop (length (trace s)) (trace s')"

definition resample :: "hw \<Rightarrow> nat \<Rightarrow> uint8_t" where
  "resample s j = fst (Get_PMOD_SWT_Status (s\<lparr>P10_reads := P10_reads s + j\<rparr>))"

text \<open>
  \<open>resamples_made s r j\<close>: the run that started in \<open>s\<close> and has the result \<open>r\<close>
  makes the resample number \<open>j\<close> (counting from 0). A run that returned in \<open>t\<close> has
  made \<open>P10_reads t - P10_reads s\<close> resamples; a run that never returns goes on
  resampling for ever.
\<close>

definition resamples_made :: "hw \<Rightarrow> hw option \<Rightarrow> nat \<Rightarrow> bool" where
  "resamples_made s r j \<longleftrightarrow>
     (case r of None \<Rightarrow> True | Some t \<Rightarrow> j < P10_reads t - P10_reads s)"

text \<open>
  \<open>blink_cycle s\<close>: the eight writes and delays of one on/off cycle of pattern 4, for
  the values that the LED registers have in \<open>s\<close>.
\<close>

definition blink_cycle :: "hw \<Rightarrow> event list" where
  "blink_cycle s =
     [Write_P9 0xFF, Write_P1 ((P1_OUT s AND 0xFE) OR 0x01), Write_P2 ((P2_OUT s AND 0xF8) OR 0x04),
      Delay1ms 1000,
      Write_P9 0x00, Write_P1 (P1_OUT s AND 0xFE), Write_P2 (P2_OUT s AND 0xF8),
      Delay1ms 1000]"

text \<open>
  Concrete states: all registers clear, the switches held at one code, for ever or for
  the first \<open>n\<close> reads and released (code 0) afterwards.
\<close>

definition hw_held :: "uint8_t \<Rightarrow> hw" where
  "hw_held c =
     \<lparr>P1_OUT = 0, P2_OUT = 0, P9_OUT = 0, P10_IN = (\<lambda>k. c), P10_reads = 0, trace = []\<rparr>"

definition hw_until :: "uint8_t \<Rightarrow> nat \<Rightarrow> hw" where
  "hw_until c n =
     \<lparr>P1_OUT = 0, P2_OUT = 0, P9_OUT = 0, P10_IN = (\<lambda>k. if k < n then c else 0),
      P10_reads = 0, trace = []\<rparr>"

section \<open>Auxiliary facts\<close>

lemmas led_constants =
  RED_LED_OFF_def RED_LED_ON_def RGB_LED_OFF_def RGB_LED_RED_def RGB_LED_GREEN_def
  RGB_LED_BLUE_def RGB_LED_PINK_def PMOD_8LD_ALL_OFF_def PMOD_8LD_ALL_ON_def

lemmas access_defs =
  Clock_Delay1ms_def LED1_Output_def LED2_Output_def PMOD_8LD_Output_def
  Get_PMOD_SWT_Status_def Let_def

lemma resample_eq: "resample s j = P10_IN s (P10_reads s + j) AND 0xF"
  by (simp add: resample_def Get_PMOD_SWT_Status_def Let_def)

lemma setup_resample [simp]:
  "resample (LED1_Output v s) j = resample s j"
  "resample (LED2_Output v s) j = resample s j"
  by (simp_all add: resample_eq access_defs)

lemma emitted_append [simp]: "trace s' = trace s @ es \<Longrightarrow> emitted s s' = es"
  by (simp add: emitted_def)

subsection \<open>One iteration of each loop\<close>

lemma LED_Pattern_2_body_eq:
  "LED_Pattern_2_body i s =
     (resample s 0 \<noteq> 0x01,
      s\<lparr>P9_OUT := word_of_int i, P10_reads := Suc (P10_reads s),
        trace := trace s @ [Write_P9 (word_of_int i), Delay1ms 100, Read_SWT (resample s 0)]\<rparr>)"
  by (simp add: LED_Pattern_2_body_def access_defs resample_eq)

lemma LED_Pattern_3_body_eq:
  "LED_Pattern_3_body i s =
     (resample s 0 \<noteq> 0x02,
      s\<lparr>P9_OUT := word_of_int i, P10_reads := Suc (P10_reads s),
        trace := trace s @ [Write_P9 (word_of_int i), Delay1ms 100, Read_SWT (resample s 0)]\<rparr>)"
  by (simp add: LED_Pattern_3_body_def access_defs resample_eq)

lemma LED_Pattern_4_body_eq:
  "LED_Pattern_4_body s =
     (resample s 0 \<noteq> 0x04,
      s\<lparr>P1_OUT := P1_OUT s AND 0xFE, P2_OUT := P2_OUT s AND 0xF8, P9_OUT := 0x00,
        P10_reads := Suc (P10_reads s),
        trace := trace s @
          [Write_P9 0xFF,
           Write_P1 ((P1_OUT s AND 0xFE) OR 0x01),
           Write_P2 ((P2_OUT s AND 0xF8) OR 0x04),
           Delay1ms 1000,
           Write_P9 0x00,
           Write_P1 (P1_OUT s AND 0xFE),
           Write_P2 (P2_OUT s AND 0xF8),
           Delay1ms 1000,
           Read_SWT (resample s 0)]\<rparr>)"
  by (simp add: LED_Pattern_4_body_def access_defs led_constants resample_eq
      word_ao_dist word_bw_assocs)

lemma LED_Pattern_5_body_eq:
  "LED_Pattern_5_body i s =
     (resample s 0 \<noteq> 0x08,
      s\<lparr>P9_OUT := word_of_int i, P10_reads := Suc (P10_reads s),
        trace := trace s @ [Write_P9 (word_of_int i), Delay1ms 500, Read_SWT (resample s 0)]\<rparr>)"
  by (simp add: LED_Pattern_5_body_def access_defs resample_eq)

subsection \<open>Runs of the counting loops while the switches are held\<close>

text \<open>
  While the next \<open>n\<close> resamples return 0x01, the loop of pattern 2 makes \<open>n\<close>
  iterations and arrives at the counter \<open>i + n\<close>.
\<close>

lemma LED_Pattern_2_for_advance:
  assumes "0 \<le> i" and "i + int n \<le> 256" and "\<forall>j<n. resample s j = 0x01"
  shows "\<exists>s'. LED_Pattern_2_for i s = LED_Pattern_2_for (i + int n) s'
            \<and> trace s' = trace s @
                 concat (map (\<lambda>j. [Write_P9 (word_of_int (i + int j)), Delay1ms 100, Read_SWT 0x01])
                   [0..<n])
            \<and> P10_reads s' = P10_reads s + n \<and> P10_IN s' = P10_IN s
            \<and> P1_OUT s' = P1_OUT s \<and> P2_OUT s' = P2_OUT s"
  using assms
proof (induction n)
  case 0
  show ?case by (intro exI [of _ s]) simp
next
  case (Suc n)
  then obtain s' where run: "LED_Pattern_2_for i s = LED_Pattern_2_for (i + int n) s'"
    and tr: "trace s' = trace s @
       concat (map (\<lambda>j. [Write_P9 (word_of_int (i + int j)), Delay1ms 100, Read_SWT 0x01]) [0..<n])"
    and rd: "P10_reads s' = P10_reads s + n" and inp: "P10_IN s' = P10_IN s"
    and leds: "P1_OUT s' = P1_OUT s" "P2_OUT s' = P2_OUT s"
    by auto
  have held: "resample s' 0 = 0x01"
    using Suc.prems(3) rd inp by (simp add: resample_eq)
  have le: "i + int n \<le> 0xFF"
    using Suc.prems(2) by simp
  let ?t = "snd (LED_Pattern_2_body (i + int n) s')"
  have step: "LED_Pattern_2_for (i + int n) s' = LED_Pattern_2_for (i + int (Suc n)) ?t"
    using le held
    by (subst LED_Pattern_2_for.simps) (simp add: LED_Pattern_2_body_eq ac_simps)
  have "trace ?t = trace s @
       concat (map (\<lambda>j. [Write_P9 (word_of_int (i + int j)), Delay1ms 100, Read_SWT 0x01]) [0..<Suc n])"
    using held tr by (simp add: LED_Pattern_2_body_eq)
  moreover have "P10_reads ?t = P10_reads s + Suc n" "P10_IN ?t = P10_IN s"
    using rd inp by (simp_all add: LED_Pattern_2_body_eq)
  moreover have "P1_OUT ?t = P1_OUT s" "P2_OUT ?t = P2_OUT s"
    using leds by (simp_all add: LED_Pattern_2_body_eq)
  ultimately show ?case
    using run step by metis
qed

text \<open>
  While the next \<open>n\<close> resamples return 0x08, the loop of pattern 5 makes \<open>n\<close>
  iterations, doubling its counter each time.
\<close>

lemma LED_Pattern_5_for_advance:
  assumes "k + n \<le> 8" and "\<forall>j<n. resample s j = 0x08"
  shows "\<exists>s'. LED_Pattern_5_for (2 ^ k) s = LED_Pattern_5_for (2 ^ (k + n)) s'
            \<and> trace s' = trace s @
                 concat (map (\<lambda>j. [Write_P9 (2 ^ (k + j)), Delay1ms 500, Read_SWT 0x08]) [0..<n])
            \<and> P10_reads s' = P10_reads s + n \<and> P10_IN s' = P10_IN s
            \<and> P1_OUT s' = P1_OUT s \<and> P2_OUT s' = P2_OUT s"
  using assms
proof (induction n)
  case 0
  show ?case by (intro exI [of _ s]) simp
next
  case (Suc n)
  then obtain s' where run: "LED_Pattern_5_for (2 ^ k) s = LED_Pattern_5_for (2 ^ (k + n)) s'"
    and tr: "trace s' = trace s @
       concat (map (\<lambda>j. [Write_P9 (2 ^ (k + j)), Delay1ms 500, Read_SWT 0x08]) [0..<n])"
    and rd: "P10_reads s' = P10_reads s + n" and inp: "P10_IN s' = P10_IN s"
    and leds: "P1_OUT s' = P1_OUT s" "P2_OUT s' = P2_OUT s"
    by auto
  have held: "resample s' 0 = 0x08"
    using Suc.prems(2) rd inp by (simp add: resample_eq)
  have "(2::int) ^ (k + n) \<le> 2 ^ 7"
    using Suc.prems(1) by (intro power_increasing) simp_all
  then have le: "(2::int) ^ (k + n) \<le> 128"
    by simp
  let ?t = "snd (LED_Pattern_5_body (2 ^ (k + n)) s')"
  have step: "LED_Pattern_5_for (2 ^ (k + n)) s' = LED_Pattern_5_for (2 ^ (k + Suc n)) ?t"
    using le held
    by (subst LED_Pattern_5_for.simps) (simp add: LED_Pattern_5_body_eq ac_simps)
  have "trace ?t = trace s @
       concat (map (\<lambda>j. [Write_P9 (2 ^ (k + j)), Delay1ms 500, Read_SWT 0x08]) [0..<Suc n])"
    using held tr by (simp add: LED_Pattern_5_body_eq)
  moreover have "P10_reads ?t = P10_reads s + Suc n" "P10_IN ?t = P10_IN s"
    using rd inp by (simp_all add: LED_Pattern_5_body_eq)
  moreover have "P1_OUT ?t = P1_OUT s" "P2_OUT ?t = P2_OUT s"
    using leds by (simp_all add: LED_Pattern_5_body_eq)
  ultimately show ?case
    using run step by metis
qed



subsection \<open>The runs of the four loops\<close>

text \<open>
  A loop with at most \<open>N\<close> iterations makes \<open>k + 1\<close> of them, where \<open>k\<close> is the first
  iteration whose sample differs from the code of the pattern, or \<open>N - 1\<close> when there
  is none: such a \<open>k\<close> exists for every input and is unique.
\<close>

lemma last_iteration_exists:
  fixes f :: "nat \<Rightarrow> 'a"
  assumes "0 < N"
  shows "\<exists>k<N. (\<forall>j<k. f j = c) \<and> (Suc k < N \<longrightarrow> f k \<noteq> c)"
proof (cases "\<forall>j<N - 1. f j = c")
  case True
  then show ?thesis
    using assms by (intro exI [of _ "N - 1"]) simp
next
  case False
  then obtain j0 where j0: "j0 < N - 1" "f j0 \<noteq> c"
    by blast
  define k where "k = (LEAST j. f j \<noteq> c)"
  have "f k \<noteq> c"
    unfolding k_def using j0(2) by (rule LeastI)
  moreover have "k \<le> j0"
    unfolding k_def using j0(2) by (rule Least_le)
  moreover have "\<forall>j<k. f j = c"
    unfolding k_def using not_less_Least by blast
  ultimately show ?thesis
    using j0(1) by (intro exI [of _ k]) simp
qed

lemma first_difference_exists:
  fixes f :: "nat \<Rightarrow> 'a"
  assumes "\<not> (\<forall>j. f j = c)"
  shows "\<exists>k. (\<forall>j<k. f j = c) \<and> f k \<noteq> c"
proof -
  from assms obtain j0 where j0: "f j0 \<noteq> c"
    by blast
  define k where "k = (LEAST j. f j \<noteq> c)"
  have "f k \<noteq> c"
    unfolding k_def using j0 by (rule LeastI)
  moreover have "\<forall>j<k. f j = c"
    unfolding k_def using not_less_Least by blast
  ultimately show ?thesis
    by blast
qed

lemma last_iteration_unique:
  fixes f :: "nat \<Rightarrow> 'a"
  assumes "\<forall>j<k. f j = c" and "Suc k < N \<longrightarrow> f k \<noteq> c" and "k < N"
    and "\<forall>j<m. f j = c" and "Suc m < N \<longrightarrow> f m \<noteq> c" and "m < N"
  shows "k = m"
proof (rule ccontr)
  assume "k \<noteq> m"
  then consider "k < m" | "m < k"
    by linarith
  then show False
  proof cases
    case 1
    then have "f k = c" "Suc k < N"
      using assms(4,6) by simp_all
    then show False
      using assms(2) by simp
  next
    case 2
    then have "f m = c" "Suc m < N"
      using assms(1,3) by simp_all
    then show False
      using assms(5) by simp
  qed
qed

subsection \<open>Pattern 2\<close>

lemma LED_Pattern_2_run:
  assumes "k < 256" and "\<forall>j<k. resample s j = 0x01" and "Suc k < 256 \<longrightarrow> resample s k \<noteq> 0x01"
  shows "trace (LED_Pattern_2 s) = trace s @
           [Write_P1 ((P1_OUT s AND 0xFE) OR 0x01), Write_P2 ((P2_OUT s AND 0xF8) OR 0x01)] @
           concat (map (\<lambda>j. [Write_P9 (of_nat j), Delay1ms 100, Read_SWT (resample s j)])
             [0..<Suc k])"
    and "P10_reads (LED_Pattern_2 s) = P10_reads s + Suc k"
    and "P1_OUT (LED_Pattern_2 s) = (P1_OUT s AND 0xFE) OR 0x01"
    and "P2_OUT (LED_Pattern_2 s) = (P2_OUT s AND 0xF8) OR 0x01"
    and "P9_OUT (LED_Pattern_2 s) = of_nat k"
proof -
  let ?s0 = "LED2_Output RGB_LED_RED (LED1_Output RED_LED_ON s)"
  have "\<forall>j<k. resample ?s0 j = 0x01"
    using assms(2) by simp
  then have "\<exists>s'. LED_Pattern_2_for 0 ?s0 = LED_Pattern_2_for (0 + int k) s'
            \<and> trace s' = trace ?s0 @
                 concat (map (\<lambda>j. [Write_P9 (word_of_int (0 + int j)), Delay1ms 100, Read_SWT 0x01])
                   [0..<k])
            \<and> P10_reads s' = P10_reads ?s0 + k \<and> P10_IN s' = P10_IN ?s0
            \<and> P1_OUT s' = P1_OUT ?s0 \<and> P2_OUT s' = P2_OUT ?s0"
    using assms(1) by (intro LED_Pattern_2_for_advance) simp_all
  then obtain s' where run: "LED_Pattern_2_for 0 ?s0 = LED_Pattern_2_for (int k) s'"
    and tr: "trace s' = trace ?s0 @
       concat (map (\<lambda>j. [Write_P9 (of_nat j), Delay1ms 100, Read_SWT 0x01]) [0..<k])"
    and rd: "P10_reads s' = P10_reads ?s0 + k" and inp: "P10_IN s' = P10_IN ?s0"
    and leds: "P1_OUT s' = P1_OUT ?s0" "P2_OUT s' = P2_OUT ?s0"
    by auto
  have smp: "resample s' 0 = resample s k"
    using rd inp by (simp add: resample_eq access_defs)
  have blocks: "map (\<lambda>j. [Write_P9 (of_nat j), Delay1ms 100, Read_SWT 0x01]) [0..<k] =
      map (\<lambda>j. [Write_P9 (of_nat j), Delay1ms 100, Read_SWT (resample s j)]) [0..<k]"
    using assms(2) by simp
  let ?u = "snd (LED_Pattern_2_body (int k) s')"
  have fin: "snd (LED_Pattern_2_for 0 ?s0) = ?u"
  proof (cases "resample s k = 0x01")
    case False
    then show ?thesis
      unfolding run using assms(1) smp
      by (subst LED_Pattern_2_for.simps) (simp add: LED_Pattern_2_body_eq)
  next
    case True
    then have last: "int k + 1 = 256"
      using assms(1,3) by auto
    have "LED_Pattern_2_for (int k) s' = LED_Pattern_2_for 256 ?u"
      using assms(1) smp True last
      by (subst LED_Pattern_2_for.simps) (simp add: LED_Pattern_2_body_eq)
    also have "\<dots> = (256, ?u)"
      by (subst LED_Pattern_2_for.simps) simp
    finally show ?thesis
      unfolding run by simp
  qed
  have res: "LED_Pattern_2 s = ?u"
    using fin by (simp add: LED_Pattern_2_def Let_def)
  show "trace (LED_Pattern_2 s) = trace s @
           [Write_P1 ((P1_OUT s AND 0xFE) OR 0x01), Write_P2 ((P2_OUT s AND 0xF8) OR 0x01)] @
           concat (map (\<lambda>j. [Write_P9 (of_nat j), Delay1ms 100, Read_SWT (resample s j)])
             [0..<Suc k])"
    unfolding res using smp tr blocks
    by (simp add: LED_Pattern_2_body_eq) (simp add: access_defs led_constants)
  show "P10_reads (LED_Pattern_2 s) = P10_reads s + Suc k"
    unfolding res using rd by (simp add: LED_Pattern_2_body_eq access_defs)
  show "P1_OUT (LED_Pattern_2 s) = (P1_OUT s AND 0xFE) OR 0x01"
    unfolding res using leds by (simp add: LED_Pattern_2_body_eq access_defs led_constants)
  show "P2_OUT (LED_Pattern_2 s) = (P2_OUT s AND 0xF8) OR 0x01"
    unfolding res using leds by (simp add: LED_Pattern_2_body_eq access_defs led_constants)
  show "P9_OUT (LED_Pattern_2 s) = of_nat k"
    unfolding res by (simp add: LED_Pattern_2_body_eq)
qed


subsection \<open>Pattern 3\<close>

lemma LED_Pattern_3_for_advance:
  assumes "int n \<le> i + 1" and "\<forall>j<n. resample s j = 0x02"
  shows "\<exists>s'. LED_Pattern_3_for i s = LED_Pattern_3_for (i - int n) s'
            \<and> trace s' = trace s @
                 concat (map (\<lambda>j. [Write_P9 (word_of_int (i - int j)), Delay1ms 100, Read_SWT 0x02])
                   [0..<n])
            \<and> P10_reads s' = P10_reads s + n \<and> P10_IN s' = P10_IN s
            \<and> P1_OUT s' = P1_OUT s \<and> P2_OUT s' = P2_OUT s"
  using assms
proof (induction n)
  case 0
  show ?case by (intro exI [of _ s]) simp
next
  case (Suc n)
  then obtain s' where run: "LED_Pattern_3_for i s = LED_Pattern_3_for (i - int n) s'"
    and tr: "trace s' = trace s @
       concat (map (\<lambda>j. [Write_P9 (word_of_int (i - int j)), Delay1ms 100, Read_SWT 0x02]) [0..<n])"
    and rd: "P10_reads s' = P10_reads s + n" and inp: "P10_IN s' = P10_IN s"
    and leds: "P1_OUT s' = P1_OUT s" "P2_OUT s' = P2_OUT s"
    by auto
  have held: "resample s' 0 = 0x02"
    using Suc.prems(2) rd inp by (simp add: resample_eq)
  have ge: "0 \<le> i - int n"
    using Suc.prems(1) by simp
  let ?t = "snd (LED_Pattern_3_body (i - int n) s')"
  have step: "LED_Pattern_3_for (i - int n) s' = LED_Pattern_3_for (i - int (Suc n)) ?t"
    using ge held
    by (subst LED_Pattern_3_for.simps) (simp add: LED_Pattern_3_body_eq algebra_simps)
  have "trace ?t = trace s @
       concat (map (\<lambda>j. [Write_P9 (word_of_int (i - int j)), Delay1ms 100, Read_SWT 0x02]) [0..<Suc n])"
    using held tr by (simp add: LED_Pattern_3_body_eq)
  moreover have "P10_reads ?t = P10_reads s + Suc n" "P10_IN ?t = P10_IN s"
    using rd inp by (simp_all add: LED_Pattern_3_body_eq)
  moreover have "P1_OUT ?t = P1_OUT s" "P2_OUT ?t = P2_OUT s"
    using leds by (simp_all add: LED_Pattern_3_body_eq)
  ultimately show ?case
    using run step by metis
qed

lemma count_down_word:
  "j \<le> 255 \<Longrightarrow> (word_of_int (255 - int j) :: uint8_t) = of_nat (255 - j)"
  by (simp add: of_nat_diff)

lemma LED_Pattern_3_run:
  assumes "k < 256" and "\<forall>j<k. resample s j = 0x02" and "Suc k < 256 \<longrightarrow> resample s k \<noteq> 0x02"
  shows "trace (LED_Pattern_3 s) = trace s @
           [Write_P1 (P1_OUT s AND 0xFE), Write_P2 ((P2_OUT s AND 0xF8) OR 0x04)] @
           concat (map (\<lambda>j. [Write_P9 (of_nat (255 - j)), Delay1ms 100, Read_SWT (resample s j)])
             [0..<Suc k])"
    and "P10_reads (LED_Pattern_3 s) = P10_reads s + Suc k"
    and "P1_OUT (LED_Pattern_3 s) = P1_OUT s AND 0xFE"
    and "P2_OUT (LED_Pattern_3 s) = (P2_OUT s AND 0xF8) OR 0x04"
    and "P9_OUT (LED_Pattern_3 s) = of_nat (255 - k)"
proof -
  let ?s0 = "LED2_Output RGB_LED_BLUE (LED1_Output RED_LED_OFF s)"
  have "\<forall>j<k. resample ?s0 j = 0x02"
    using assms(2) by simp
  then have "\<exists>s'. LED_Pattern_3_for 255 ?s0 = LED_Pattern_3_for (255 - int k) s'
            \<and> trace s' = trace ?s0 @
                 concat (map (\<lambda>j. [Write_P9 (word_of_int (255 - int j)), Delay1ms 100, Read_SWT 0x02])
                   [0..<k])
            \<and> P10_reads s' = P10_reads ?s0 + k \<and> P10_IN s' = P10_IN ?s0
            \<and> P1_OUT s' = P1_OUT ?s0 \<and> P2_OUT s' = P2_OUT ?s0"
    using assms(1) by (intro LED_Pattern_3_for_advance) simp_all
  then obtain s' where run: "LED_Pattern_3_for 255 ?s0 = LED_Pattern_3_for (255 - int k) s'"
    and tr: "trace s' = trace ?s0 @
       concat (map (\<lambda>j. [Write_P9 (word_of_int (255 - int j)), Delay1ms 100, Read_SWT 0x02]) [0..<k])"
    and rd: "P10_reads s' = P10_reads ?s0 + k" and inp: "P10_IN s' = P10_IN ?s0"
    and leds: "P1_OUT s' = P1_OUT ?s0" "P2_OUT s' = P2_OUT ?s0"
    by auto
  have smp: "resample s' 0 = resample s k"
    using rd inp by (simp add: resample_eq access_defs)
  have blocks: "map (\<lambda>j. [Write_P9 (word_of_int (255 - int j)), Delay1ms 100, Read_SWT 0x02]) [0..<k] =
      map (\<lambda>j. [Write_P9 (of_nat (255 - j)), Delay1ms 100, Read_SWT (resample s j)]) [0..<k]"
    using assms(1,2) by (simp add: count_down_word)
  have tr': "trace s' = trace ?s0 @
       concat (map (\<lambda>j. [Write_P9 (of_nat (255 - j)), Delay1ms 100, Read_SWT (resample s j)]) [0..<k])"
    by (simp only: tr blocks)
  have last_write: "(word_of_int (255 - int k) :: uint8_t) = of_nat (255 - k)"
    using assms(1) by (simp add: count_down_word)
  let ?u = "snd (LED_Pattern_3_body (255 - int k) s')"
  have fin: "snd (LED_Pattern_3_for 255 ?s0) = ?u"
  proof (cases "resample s k = 0x02")
    case False
    then show ?thesis
      unfolding run using assms(1) smp
      by (subst LED_Pattern_3_for.simps) (simp add: LED_Pattern_3_body_eq)
  next
    case True
    then have last: "255 - int k - 1 = - 1"
      using assms(1,3) by auto
    have "LED_Pattern_3_for (255 - int k) s' = LED_Pattern_3_for (- 1) ?u"
      using assms(1) smp True last
      by (subst LED_Pattern_3_for.simps) (simp add: LED_Pattern_3_body_eq)
    also have "\<dots> = (- 1, ?u)"
      by (subst LED_Pattern_3_for.simps) simp
    finally show ?thesis
      unfolding run by simp
  qed
  have res: "LED_Pattern_3 s = ?u"
    using fin by (simp add: LED_Pattern_3_def Let_def)
  show "trace (LED_Pattern_3 s) = trace s @
           [Write_P1 (P1_OUT s AND 0xFE), Write_P2 ((P2_OUT s AND 0xF8) OR 0x04)] @
           concat (map (\<lambda>j. [Write_P9 (of_nat (255 - j)), Delay1ms 100, Read_SWT (resample s j)])
             [0..<Suc k])"
    unfolding res using smp tr' last_write
    by (simp add: LED_Pattern_3_body_eq) (simp add: access_defs led_constants)
  show "P10_reads (LED_Pattern_3 s) = P10_reads s + Suc k"
    unfolding res using rd by (simp add: LED_Pattern_3_body_eq access_defs)
  show "P1_OUT (LED_Pattern_3 s) = P1_OUT s AND 0xFE"
    unfolding res using leds by (simp add: LED_Pattern_3_body_eq access_defs led_constants)
  show "P2_OUT (LED_Pattern_3 s) = (P2_OUT s AND 0xF8) OR 0x04"
    unfolding res using leds by (simp add: LED_Pattern_3_body_eq access_defs led_constants)
  show "P9_OUT (LED_Pattern_3 s) = of_nat (255 - k)"
    unfolding res using last_write by (simp add: LED_Pattern_3_body_eq)
qed

subsection \<open>Pattern 5\<close>

lemma LED_Pattern_5_run:
  assumes "k < 8" and "\<forall>j<k. resample s j = 0x08" and "Suc k < 8 \<longrightarrow> resample s k \<noteq> 0x08"
  shows "\<exists>t. LED_Pattern_5 s = Some t
     \<and> trace t = trace s @
           [Write_P1 (P1_OUT s AND 0xFE), Write_P2 (P2_OUT s AND 0xF8)] @
           concat (map (\<lambda>j. [Write_P9 (2 ^ j), Delay1ms 500, Read_SWT (resample s j)]) [0..<Suc k])
     \<and> P10_reads t = P10_reads s + Suc k
     \<and> P1_OUT t = P1_OUT s AND 0xFE \<and> P2_OUT t = P2_OUT s AND 0xF8 \<and> P9_OUT t = 2 ^ k"
proof -
  let ?s0 = "LED2_Output RGB_LED_OFF (LED1_Output RED_LED_OFF s)"
  have "\<forall>j<k. resample ?s0 j = 0x08"
    using assms(2) by simp
  then have "\<exists>s'. LED_Pattern_5_for (2 ^ 0) ?s0 = LED_Pattern_5_for (2 ^ (0 + k)) s'
            \<and> trace s' = trace ?s0 @
                 concat (map (\<lambda>j. [Write_P9 (2 ^ (0 + j)), Delay1ms 500, Read_SWT 0x08]) [0..<k])
            \<and> P10_reads s' = P10_reads ?s0 + k \<and> P10_IN s' = P10_IN ?s0
            \<and> P1_OUT s' = P1_OUT ?s0 \<and> P2_OUT s' = P2_OUT ?s0"
    using assms(1) by (intro LED_Pattern_5_for_advance) simp_all
  then obtain s' where run: "LED_Pattern_5_for 1 ?s0 = LED_Pattern_5_for (2 ^ k) s'"
    and tr: "trace s' = trace ?s0 @
       concat (map (\<lambda>j. [Write_P9 (2 ^ j), Delay1ms 500, Read_SWT 0x08]) [0..<k])"
    and rd: "P10_reads s' = P10_reads ?s0 + k" and inp: "P10_IN s' = P10_IN ?s0"
    and leds: "P1_OUT s' = P1_OUT ?s0" "P2_OUT s' = P2_OUT ?s0"
    by auto
  have smp: "resample s' 0 = resample s k"
    using rd inp by (simp add: resample_eq access_defs)
  have blocks: "map (\<lambda>j. [Write_P9 (2 ^ j), Delay1ms 500, Read_SWT 0x08]) [0..<k] =
      map (\<lambda>j. [Write_P9 (2 ^ j), Delay1ms 500, Read_SWT (resample s j)]) [0..<k]"
    using assms(2) by simp
  have "(2::int) ^ k \<le> 2 ^ 7"
    using assms(1) by (intro power_increasing) simp_all
  then have le: "(2::int) ^ k \<le> 128"
    by simp
  let ?u = "snd (LED_Pattern_5_body (2 ^ k) s')"
  have fin: "map_option snd (LED_Pattern_5_for 1 ?s0) = Some ?u"
  proof (cases "resample s k = 0x08")
    case False
    then show ?thesis
      unfolding run using le smp
      by (subst LED_Pattern_5_for.simps) (simp add: LED_Pattern_5_body_eq)
  next
    case True
    then have "k = 7"
      using assms(1,3) by auto
    then have last: "(2::int) ^ k * 2 = 256"
      by simp
    have "LED_Pattern_5_for (2 ^ k) s' = LED_Pattern_5_for 256 ?u"
      using le smp True last
      by (subst LED_Pattern_5_for.simps) (simp add: LED_Pattern_5_body_eq)
    also have "\<dots> = Some (256, ?u)"
      by (subst LED_Pattern_5_for.simps) simp
    finally show ?thesis
      unfolding run by simp
  qed
  have res: "LED_Pattern_5 s = Some ?u"
    using fin by (simp add: LED_Pattern_5_def Let_def)
  have "trace ?u = trace s @
           [Write_P1 (P1_OUT s AND 0xFE), Write_P2 (P2_OUT s AND 0xF8)] @
           concat (map (\<lambda>j. [Write_P9 (2 ^ j), Delay1ms 500, Read_SWT (resample s j)]) [0..<Suc k])"
    using smp tr blocks
    by (simp add: LED_Pattern_5_body_eq) (simp add: access_defs led_constants)
  moreover have "P10_reads ?u = P10_reads s + Suc k"
    using rd by (simp add: LED_Pattern_5_body_eq access_defs)
  moreover have "P1_OUT ?u = P1_OUT s AND 0xFE" "P2_OUT ?u = P2_OUT s AND 0xF8"
    using leds by (simp_all add: LED_Pattern_5_body_eq access_defs led_constants)
  moreover have "P9_OUT ?u = 2 ^ k"
    by (simp add: LED_Pattern_5_body_eq)
  ultimately show ?thesis
    using res by blast
qed

lemma first_difference_unique:
  fixes f :: "nat \<Rightarrow> 'a"
  assumes "\<forall>j<k. f j = c" and "f k \<noteq> c" and "\<forall>j<m. f j = c" and "f m \<noteq> c"
  shows "k = m"
  using assms by (meson linorder_neqE_nat)

subsection \<open>Pattern 4\<close>

lemma LED_Pattern_4_body_cycle:
  "LED_Pattern_4_body s =
     (resample s 0 \<noteq> 0x04,
      s\<lparr>P1_OUT := P1_OUT s AND 0xFE, P2_OUT := P2_OUT s AND 0xF8, P9_OUT := 0x00,
        P10_reads := Suc (P10_reads s),
        trace := trace s @ blink_cycle s @ [Read_SWT (resample s 0)]\<rparr>)"
  by (simp add: LED_Pattern_4_body_eq blink_cycle_def)

lemma blink_cycle_cong:
  "P1_OUT s' AND 0xFE = P1_OUT s AND 0xFE \<Longrightarrow> P2_OUT s' AND 0xF8 = P2_OUT s AND 0xF8 \<Longrightarrow>
     blink_cycle s' = blink_cycle s"
  by (simp add: blink_cycle_def)

lemma LED_Pattern_4_iterate:
  assumes "\<forall>j<n. resample s j = 0x04"
  shows "LED_Pattern_4 (((\<lambda>s. snd (LED_Pattern_4_body s)) ^^ n) s) = LED_Pattern_4 s
     \<and> trace (((\<lambda>s. snd (LED_Pattern_4_body s)) ^^ n) s) = trace s @
          concat (map (\<lambda>j. blink_cycle s @ [Read_SWT (resample s j)]) [0..<n])
     \<and> P10_reads (((\<lambda>s. snd (LED_Pattern_4_body s)) ^^ n) s) = P10_reads s + n
     \<and> P10_IN (((\<lambda>s. snd (LED_Pattern_4_body s)) ^^ n) s) = P10_IN s
     \<and> P1_OUT (((\<lambda>s. snd (LED_Pattern_4_body s)) ^^ n) s) AND 0xFE = P1_OUT s AND 0xFE
     \<and> P2_OUT (((\<lambda>s. snd (LED_Pattern_4_body s)) ^^ n) s) AND 0xF8 = P2_OUT s AND 0xF8"
  using assms
proof (induction n)
  case 0
  show ?case by simp
next
  case (Suc n)
  let ?s' = "((\<lambda>s. snd (LED_Pattern_4_body s)) ^^ n) s"
  let ?t = "snd (LED_Pattern_4_body ?s')"
  from Suc have run: "LED_Pattern_4 ?s' = LED_Pattern_4 s"
    and tr: "trace ?s' = trace s @
          concat (map (\<lambda>j. blink_cycle s @ [Read_SWT (resample s j)]) [0..<n])"
    and rd: "P10_reads ?s' = P10_reads s + n" and inp: "P10_IN ?s' = P10_IN s"
    and leds: "P1_OUT ?s' AND 0xFE = P1_OUT s AND 0xFE" "P2_OUT ?s' AND 0xF8 = P2_OUT s AND 0xF8"
    by simp_all
  have smp: "resample ?s' 0 = resample s n"
    using rd inp by (simp add: resample_eq)
  have held: "resample ?s' 0 = 0x04"
    using smp Suc.prems by simp
  have cyc: "blink_cycle ?s' = blink_cycle s"
    using leds by (rule blink_cycle_cong)
  have it: "((\<lambda>s. snd (LED_Pattern_4_body s)) ^^ Suc n) s = ?t"
    by simp
  have "LED_Pattern_4 ?t = LED_Pattern_4 ?s'"
    using held by (subst (2) LED_Pattern_4.simps) (simp add: LED_Pattern_4_body_cycle)
  then have "LED_Pattern_4 ?t = LED_Pattern_4 s"
    using run by simp
  moreover have "trace ?t = trace s @
          concat (map (\<lambda>j. blink_cycle s @ [Read_SWT (resample s j)]) [0..<Suc n])"
    using tr smp cyc by (simp add: LED_Pattern_4_body_cycle)
  moreover have "P10_reads ?t = P10_reads s + Suc n" "P10_IN ?t = P10_IN s"
    using rd inp by (simp_all add: LED_Pattern_4_body_cycle)
  moreover have "P1_OUT ?t AND 0xFE = P1_OUT s AND 0xFE" "P2_OUT ?t AND 0xF8 = P2_OUT s AND 0xF8"
    using leds by (simp_all add: LED_Pattern_4_body_cycle word_bw_assocs)
  ultimately show ?case
    unfolding it by blast
qed

lemma LED_Pattern_4_run:
  assumes "\<forall>j<k. resample s j = 0x04" and "resample s k \<noteq> 0x04"
  shows "\<exists>t. LED_Pattern_4 s = Some t
     \<and> trace t = trace s @
          concat (map (\<lambda>j. blink_cycle s @ [Read_SWT (resample s j)]) [0..<Suc k])
     \<and> P10_reads t = P10_reads s + Suc k
     \<and> P1_OUT t = P1_OUT s AND 0xFE \<and> P2_OUT t = P2_OUT s AND 0xF8 \<and> P9_OUT t = 0x00"
proof -
  let ?s' = "((\<lambda>s. snd (LED_Pattern_4_body s)) ^^ k) s"
  let ?u = "snd (LED_Pattern_4_body ?s')"
  from LED_Pattern_4_iterate [OF assms(1)]
  have run: "LED_Pattern_4 ?s' = LED_Pattern_4 s"
    and tr: "trace ?s' = trace s @
          concat (map (\<lambda>j. blink_cycle s @ [Read_SWT (resample s j)]) [0..<k])"
    and rd: "P10_reads ?s' = P10_reads s + k" and inp: "P10_IN ?s' = P10_IN s"
    and leds: "P1_OUT ?s' AND 0xFE = P1_OUT s AND 0xFE" "P2_OUT ?s' AND 0xF8 = P2_OUT s AND 0xF8"
    by simp_all
  have smp: "resample ?s' 0 = resample s k"
    using rd inp by (simp add: resample_eq)
  have cyc: "blink_cycle ?s' = blink_cycle s"
    using leds by (rule blink_cycle_cong)
  have "LED_Pattern_4 ?s' = Some ?u"
    using smp assms(2) by (subst LED_Pattern_4.simps) (simp add: LED_Pattern_4_body_cycle)
  then have res: "LED_Pattern_4 s = Some ?u"
    using run by simp
  have "trace ?u = trace s @
          concat (map (\<lambda>j. blink_cycle s @ [Read_SWT (resample s j)]) [0..<Suc k])"
    using tr smp cyc by (simp add: LED_Pattern_4_body_cycle)
  moreover have "P10_reads ?u = P10_reads s + Suc k"
    using rd by (simp add: LED_Pattern_4_body_cycle)
  moreover have "P1_OUT ?u = P1_OUT s AND 0xFE" "P2_OUT ?u = P2_OUT s AND 0xF8" "P9_OUT ?u = 0x00"
    using leds by (simp_all add: LED_Pattern_4_body_cycle)
  ultimately show ?thesis
    using res by blast
qed

lemma LED_Pattern_4_returns_cancelled:
  assumes run: "LED_Pattern_4 s = Some t"
  shows "\<exists>k. resample s k \<noteq> 0x04"
proof (rule LED_Pattern_4.raw_induct [where P = "\<lambda>s t. \<exists>k. resample s k \<noteq> 0x04", OF _ run])
  fix rec :: "hw \<Rightarrow> hw option" and s t
  assume IH: "\<And>x y. rec x = Some y \<Longrightarrow> \<exists>k. resample x k \<noteq> 0x04"
    and step: "(let (break, s') = LED_Pattern_4_body s
                in if break then Some s' else rec s') = Some t"
  show "\<exists>k. resample s k \<noteq> 0x04"
  proof (cases "resample s 0 = 0x04")
    case False
    then show ?thesis by blast
  next
    case True
    then have "rec (snd (LED_Pattern_4_body s)) = Some t"
      using step by (simp add: LED_Pattern_4_body_cycle)
    then obtain k where "resample (snd (LED_Pattern_4_body s)) k \<noteq> 0x04"
      using IH by blast
    then have "resample s (Suc k) \<noteq> 0x04"
      by (simp add: LED_Pattern_4_body_cycle resample_eq)
    then show ?thesis by blast
  qed
qed

lemma LED_Pattern_4_never:
  "\<forall>j. resample s j = 0x04 \<Longrightarrow> LED_Pattern_4 s = None"
  using LED_Pattern_4_returns_cancelled [of s] by (cases "LED_Pattern_4 s") auto

subsection \<open>Runs from states with equal registers and equal resamples\<close>

lemma LED_Pattern_1_same:
  assumes "P1_OUT s1 = P1_OUT s2" and "P2_OUT s1 = P2_OUT s2" and "P9_OUT s1 = P9_OUT s2"
  shows "emitted s1 (LED_Pattern_1 b s1) = emitted s2 (LED_Pattern_1 b s2)
     \<and> P1_OUT (LED_Pattern_1 b s1) = P1_OUT (LED_Pattern_1 b s2)
     \<and> P2_OUT (LED_Pattern_1 b s1) = P2_OUT (LED_Pattern_1 b s2)
     \<and> P9_OUT (LED_Pattern_1 b s1) = P9_OUT (LED_Pattern_1 b s2)"
  using assms by (simp add: LED_Pattern_1_def emitted_def access_defs)

lemma LED_Pattern_1_no_resample: "P10_reads (LED_Pattern_1 b s) = P10_reads s"
  by (simp add: LED_Pattern_1_def access_defs)

lemma LED_Pattern_2_same:
  assumes regs: "P1_OUT s1 = P1_OUT s2" "P2_OUT s1 = P2_OUT s2"
    and reads: "\<forall>j. resamples_made s1 (Some (LED_Pattern_2 s1)) j \<longrightarrow> resample s1 j = resample s2 j"
  shows "emitted s1 (LED_Pattern_2 s1) = emitted s2 (LED_Pattern_2 s2)
     \<and> P1_OUT (LED_Pattern_2 s1) = P1_OUT (LED_Pattern_2 s2)
     \<and> P2_OUT (LED_Pattern_2 s1) = P2_OUT (LED_Pattern_2 s2)
     \<and> P9_OUT (LED_Pattern_2 s1) = P9_OUT (LED_Pattern_2 s2)"
proof -
  obtain k where k: "k < 256" "\<forall>j<k. resample s1 j = 0x01" "Suc k < 256 \<longrightarrow> resample s1 k \<noteq> 0x01"
    using last_iteration_exists [of 256 "resample s1" "0x01"] by auto
  note r1 = LED_Pattern_2_run [OF k]
  have same: "\<forall>j<Suc k. resample s1 j = resample s2 j"
    using reads r1(2) by (simp add: resamples_made_def)
  have k2: "\<forall>j<k. resample s2 j = 0x01" "Suc k < 256 \<longrightarrow> resample s2 k \<noteq> 0x01"
    using k(2,3) same by (metis less_Suc_eq, metis lessI)
  note r2 = LED_Pattern_2_run [OF k(1) k2]
  have blocks: "map (\<lambda>j. [Write_P9 (of_nat j), Delay1ms 100, Read_SWT (resample s1 j)]) [0..<Suc k] =
      map (\<lambda>j. [Write_P9 (of_nat j), Delay1ms 100, Read_SWT (resample s2 j)]) [0..<Suc k]"
    using same by simp
  have "emitted s1 (LED_Pattern_2 s1) = emitted s2 (LED_Pattern_2 s2)"
    unfolding emitted_append [OF r1(1)] emitted_append [OF r2(1)] blocks regs ..
  then show ?thesis
    using regs by (simp add: r1 r2)
qed

lemma LED_Pattern_3_same:
  assumes regs: "P1_OUT s1 = P1_OUT s2" "P2_OUT s1 = P2_OUT s2"
    and reads: "\<forall>j. resamples_made s1 (Some (LED_Pattern_3 s1)) j \<longrightarrow> resample s1 j = resample s2 j"
  shows "emitted s1 (LED_Pattern_3 s1) = emitted s2 (LED_Pattern_3 s2)
     \<and> P1_OUT (LED_Pattern_3 s1) = P1_OUT (LED_Pattern_3 s2)
     \<and> P2_OUT (LED_Pattern_3 s1) = P2_OUT (LED_Pattern_3 s2)
     \<and> P9_OUT (LED_Pattern_3 s1) = P9_OUT (LED_Pattern_3 s2)"
proof -
  obtain k where k: "k < 256" "\<forall>j<k. resample s1 j = 0x02" "Suc k < 256 \<longrightarrow> resample s1 k \<noteq> 0x02"
    using last_iteration_exists [of 256 "resample s1" "0x02"] by auto
  note r1 = LED_Pattern_3_run [OF k]
  have same: "\<forall>j<Suc k. resample s1 j = resample s2 j"
    using reads r1(2) by (simp add: resamples_made_def)
  have k2: "\<forall>j<k. resample s2 j = 0x02" "Suc k < 256 \<longrightarrow> resample s2 k \<noteq> 0x02"
    using k(2,3) same by (metis less_Suc_eq, metis lessI)
  note r2 = LED_Pattern_3_run [OF k(1) k2]
  have blocks: "map (\<lambda>j. [Write_P9 (of_nat (255 - j)), Delay1ms 100, Read_SWT (resample s1 j)]) [0..<Suc k] =
      map (\<lambda>j. [Write_P9 (of_nat (255 - j)), Delay1ms 100, Read_SWT (resample s2 j)]) [0..<Suc k]"
    using same by simp
  have "emitted s1 (LED_Pattern_3 s1) = emitted s2 (LED_Pattern_3 s2)"
    unfolding emitted_append [OF r1(1)] emitted_append [OF r2(1)] blocks regs ..
  then show ?thesis
    using regs by (simp add: r1 r2)
qed

lemma LED_Pattern_5_same:
  assumes regs: "P1_OUT s1 = P1_OUT s2" "P2_OUT s1 = P2_OUT s2"
    and reads: "\<forall>j. resamples_made s1 (LED_Pattern_5 s1) j \<longrightarrow> resample s1 j = resample s2 j"
  shows "\<exists>t1 t2. LED_Pattern_5 s1 = Some t1 \<and> LED_Pattern_5 s2 = Some t2
     \<and> emitted s1 t1 = emitted s2 t2
     \<and> P1_OUT t1 = P1_OUT t2 \<and> P2_OUT t1 = P2_OUT t2 \<and> P9_OUT t1 = P9_OUT t2"
proof -
  obtain k where k: "k < 8" "\<forall>j<k. resample s1 j = 0x08" "Suc k < 8 \<longrightarrow> resample s1 k \<noteq> 0x08"
    using last_iteration_exists [of 8 "resample s1" "0x08"] by auto
  from LED_Pattern_5_run [OF k] obtain t1 where t1: "LED_Pattern_5 s1 = Some t1"
    and tr1: "trace t1 = trace s1 @
           [Write_P1 (P1_OUT s1 AND 0xFE), Write_P2 (P2_OUT s1 AND 0xF8)] @
           concat (map (\<lambda>j. [Write_P9 (2 ^ j), Delay1ms 500, Read_SWT (resample s1 j)]) [0..<Suc k])"
    and rd1: "P10_reads t1 = P10_reads s1 + Suc k"
    and out1: "P1_OUT t1 = P1_OUT s1 AND 0xFE" "P2_OUT t1 = P2_OUT s1 AND 0xF8" "P9_OUT t1 = 2 ^ k"
    by blast
  have same: "\<forall>j<Suc k. resample s1 j = resample s2 j"
    using reads t1 rd1 by (simp add: resamples_made_def)
  have k2: "\<forall>j<k. resample s2 j = 0x08" "Suc k < 8 \<longrightarrow> resample s2 k \<noteq> 0x08"
    using k(2,3) same by (metis less_Suc_eq, metis lessI)
  from LED_Pattern_5_run [OF k(1) k2] obtain t2 where t2: "LED_Pattern_5 s2 = Some t2"
    and tr2: "trace t2 = trace s2 @
           [Write_P1 (P1_OUT s2 AND 0xFE), Write_P2 (P2_OUT s2 AND 0xF8)] @
           concat (map (\<lambda>j. [Write_P9 (2 ^ j), Delay1ms 500, Read_SWT (resample s2 j)]) [0..<Suc k])"
    and out2: "P1_OUT t2 = P1_OUT s2 AND 0xFE" "P2_OUT t2 = P2_OUT s2 AND 0xF8" "P9_OUT t2 = 2 ^ k"
    by blast
  have blocks: "map (\<lambda>j. [Write_P9 (2 ^ j), Delay1ms 500, Read_SWT (resample s1 j)]) [0..<Suc k] =
      map (\<lambda>j. [Write_P9 (2 ^ j), Delay1ms 500, Read_SWT (resample s2 j)]) [0..<Suc k]"
    using same by simp
  have "emitted s1 t1 = emitted s2 t2"
    unfolding emitted_append [OF tr1] emitted_append [OF tr2] blocks regs ..
  then show ?thesis
    using t1 t2 regs by (simp add: out1 out2)
qed

lemma LED_Pattern_4_same:
  assumes regs: "P1_OUT s1 = P1_OUT s2" "P2_OUT s1 = P2_OUT s2"
    and reads: "\<forall>j. resamples_made s1 (LED_Pattern_4 s1) j \<longrightarrow> resample s1 j = resample s2 j"
  shows "(LED_Pattern_4 s1 = None \<and> LED_Pattern_4 s2 = None
          \<and> (\<forall>n. emitted s1 (((\<lambda>s. snd (LED_Pattern_4_body s)) ^^ n) s1) =
                  emitted s2 (((\<lambda>s. snd (LED_Pattern_4_body s)) ^^ n) s2)))
     \<or> (\<exists>t1 t2. LED_Pattern_4 s1 = Some t1 \<and> LED_Pattern_4 s2 = Some t2
          \<and> emitted s1 t1 = emitted s2 t2
          \<and> P1_OUT t1 = P1_OUT t2 \<and> P2_OUT t1 = P2_OUT t2 \<and> P9_OUT t1 = P9_OUT t2)"
proof (cases "\<forall>j. resample s1 j = 0x04")
  case True
  then have none1: "LED_Pattern_4 s1 = None"
    by (rule LED_Pattern_4_never)
  then have same: "\<forall>j. resample s1 j = resample s2 j"
    using reads by (simp add: resamples_made_def)
  then have held2: "\<forall>j. resample s2 j = 0x04"
    using True by simp
  then have none2: "LED_Pattern_4 s2 = None"
    by (rule LED_Pattern_4_never)
  have cyc: "blink_cycle s1 = blink_cycle s2"
    using regs by (simp add: blink_cycle_def)
  have "emitted s1 (((\<lambda>s. snd (LED_Pattern_4_body s)) ^^ n) s1) =
      emitted s2 (((\<lambda>s. snd (LED_Pattern_4_body s)) ^^ n) s2)" for n
  proof -
    have a: "trace (((\<lambda>s. snd (LED_Pattern_4_body s)) ^^ n) s1) = trace s1 @
          concat (map (\<lambda>j. blink_cycle s1 @ [Read_SWT (resample s1 j)]) [0..<n])"
      using LED_Pattern_4_iterate [of n s1] True by simp
    have b: "trace (((\<lambda>s. snd (LED_Pattern_4_body s)) ^^ n) s2) = trace s2 @
          concat (map (\<lambda>j. blink_cycle s2 @ [Read_SWT (resample s2 j)]) [0..<n])"
      using LED_Pattern_4_iterate [of n s2] held2 by simp
    show ?thesis
      unfolding emitted_append [OF a] emitted_append [OF b] cyc using same by simp
  qed
  then show ?thesis
    using none1 none2 by blast
next
  case False
  then obtain k where k: "\<forall>j<k. resample s1 j = 0x04" "resample s1 k \<noteq> 0x04"
    using first_difference_exists [of "resample s1" "0x04"] by auto
  from LED_Pattern_4_run [OF k] obtain t1 where t1: "LED_Pattern_4 s1 = Some t1"
    and tr1: "trace t1 = trace s1 @
          concat (map (\<lambda>j. blink_cycle s1 @ [Read_SWT (resample s1 j)]) [0..<Suc k])"
    and rd1: "P10_reads t1 = P10_reads s1 + Suc k"
    and out1: "P1_OUT t1 = P1_OUT s1 AND 0xFE" "P2_OUT t1 = P2_OUT s1 AND 0xF8" "P9_OUT t1 = 0x00"
    by blast
  have same: "\<forall>j<Suc k. resample s1 j = resample s2 j"
    using reads t1 rd1 by (simp add: resamples_made_def)
  have k2: "\<forall>j<k. resample s2 j = 0x04" "resample s2 k \<noteq> 0x04"
    using k same by (metis less_Suc_eq, metis lessI)
  from LED_Pattern_4_run [OF k2] obtain t2 where t2: "LED_Pattern_4 s2 = Some t2"
    and tr2: "trace t2 = trace s2 @
          concat (map (\<lambda>j. blink_cycle s2 @ [Read_SWT (resample s2 j)]) [0..<Suc k])"
    and out2: "P1_OUT t2 = P1_OUT s2 AND 0xFE" "P2_OUT t2 = P2_OUT s2 AND 0xF8" "P9_OUT t2 = 0x00"
    by blast
  have cyc: "blink_cycle s1 = blink_cycle s2"
    using regs by (simp add: blink_cycle_def)
  have blocks: "map (\<lambda>j. blink_cycle s2 @ [Read_SWT (resample s1 j)]) [0..<Suc k] =
      map (\<lambda>j. blink_cycle s2 @ [Read_SWT (resample s2 j)]) [0..<Suc k]"
    using same by simp
  have "emitted s1 t1 = emitted s2 t2"
    unfolding emitted_append [OF tr1] emitted_append [OF tr2] cyc blocks ..
  then show ?thesis
    using t1 t2 regs by (simp add: out1 out2)
qed

subsection \<open>The concrete states\<close>

lemma resample_hw_until: "resample (hw_until c n) j = (if j < n then c AND 0xF else 0)"
  by (simp add: resample_eq hw_until_def)

lemma resample_hw_held: "resample (hw_held c) j = c AND 0xF"
  by (simp add: resample_eq hw_held_def)

section \<open>The claims\<close>

text \<open>
  C1. For every switch-state code not in {0x00, 0x01, 0x02, 0x04, 0x08},
  \<open>LED_Controller\<close> runs \<open>LED_Pattern_1\<close> on the sampled button-state code, and for
  each code of that set it runs exactly the corresponding one of the five patterns:
  0x00 pattern 1, 0x01 pattern 2, 0x02 pattern 3, 0x04 pattern 4, 0x08 pattern 5.
\<close>

theorem C1_controller_dispatch:
  "(switch_status \<notin> {0x00, 0x01, 0x02, 0x04, 0x08} \<longrightarrow>
      LED_Controller button_status switch_status s = Some (LED_Pattern_1 button_status s))
   \<and> LED_Controller button_status 0x00 s = Some (LED_Pattern_1 button_status s)
   \<and> LED_Controller button_status 0x01 s = Some (LED_Pattern_2 s)
   \<and> LED_Controller button_status 0x02 s = Some (LED_Pattern_3 s)
   \<and> LED_Controller button_status 0x04 s = LED_Pattern_4 s
   \<and> LED_Controller button_status 0x08 s = LED_Pattern_5 s"
  by (simp add: LED_Controller_def)

theorem C1_controller_dispatch_witness:
  "(0x03 :: uint8_t) \<notin> {0x00, 0x01, 0x02, 0x04, 0x08}
   \<and> LED_Controller 0x10 0x03 (hw_held 0x03) = Some (LED_Pattern_1 0x10 (hw_held 0x03))
   \<and> trace (LED_Pattern_1 0x10 (hw_held 0x03)) = [Write_P1 0x01, Write_P2 0x00, Write_P9 0x55]"
  using C1_controller_dispatch [of "0x03" "0x10" "hw_held 0x03"]
  by (simp add: LED_Pattern_1_def hw_held_def access_defs led_constants)



text \<open>
  C3. With switch-state code 0x00 and button-state code 0x00 (both buttons pressed),
  pattern 1 clears the 8-LED bank and produces exactly one blink: the onboard LED on and
  the tri-color LED green, held for 1000 ms, then both off, held for 1000 ms; then it
  returns, with both LEDs off.
\<close>

theorem C3_pattern_1_single_blink:
  "LED_Controller 0x00 0x00 s = Some (LED_Pattern_1 0x00 s)
   \<and> emitted s (LED_Pattern_1 0x00 s) =
       [Write_P9 0x00,
        Write_P1 ((P1_OUT s AND 0xFE) OR 0x01),
        Write_P2 ((P2_OUT s AND 0xF8) OR 0x02),
        Delay1ms 1000,
        Write_P1 (P1_OUT s AND 0xFE),
        Write_P2 (P2_OUT s AND 0xF8),
        Delay1ms 1000]
   \<and> LED1_Status (LED_Pattern_1 0x00 s) = RED_LED_OFF
   \<and> LED2_Status (LED_Pattern_1 0x00 s) = RGB_LED_OFF"
  by (simp add: LED_Controller_def LED_Pattern_1_def emitted_def access_defs led_constants
      LED1_Status_def LED2_Status_def word_ao_dist word_bw_assocs)

text \<open>
  C4. With switch-state code 0x00 and button-state code 0x02, pattern 1 leaves the 8-LED
  bank at 0xAA and the tri-color LED, the three low bits of the port 2 output register
  that \<open>LED2_Status\<close> reads, at the pink code; pink is 0x05, the combination of red
  (bit 0) and blue (bit 2). The other five bits of that register keep their values.
\<close>

theorem C4_pattern_1_button_2:
  "LED_Controller 0x02 0x00 s = Some (LED_Pattern_1 0x02 s)
   \<and> P9_OUT (LED_Pattern_1 0x02 s) = 0xAA
   \<and> LED2_Status (LED_Pattern_1 0x02 s) = RGB_LED_PINK
   \<and> P2_OUT (LED_Pattern_1 0x02 s) = (P2_OUT s AND 0xF8) OR RGB_LED_PINK
   \<and> RGB_LED_PINK = 0x05
   \<and> RGB_LED_PINK = RGB_LED_RED OR RGB_LED_BLUE"
  by (simp add: LED_Controller_def LED_Pattern_1_def LED2_Status_def access_defs led_constants
      word_ao_dist word_bw_assocs)



text \<open>
  C6. Every run of patterns 2, 3, 4 and 5 is its setup followed by a number of
  iterations, at least one, and every iteration of the run is: the writes, the delay
  (for pattern 4 the full on/off cycle with both delays), and then exactly one sample
  of the switches, as the last action of the iteration. The sample is tested: the
  samples of all iterations but the last equal the code of the pattern, and the sample
  of the last one differs from it unless the loop bound ended the run. So no sample
  precedes the first write and delay, and a cancellation takes effect only after them.
  Pattern 4 has no loop bound: either some sample differs and the run returns after
  that iteration, or every sample is 0x04, the routine never returns, and after any
  number \<open>n\<close> of iterations it has made \<open>n\<close> full cycles, each followed by one sample.
\<close>

theorem C6_sample_after_effect:
  "(\<exists>k<256. (\<forall>j<k. resample s j = 0x01) \<and> (Suc k < 256 \<longrightarrow> resample s k \<noteq> 0x01)
      \<and> emitted s (LED_Pattern_2 s) =
          [Write_P1 ((P1_OUT s AND 0xFE) OR 0x01), Write_P2 ((P2_OUT s AND 0xF8) OR 0x01)] @
          concat (map (\<lambda>j. [Write_P9 (of_nat j), Delay1ms 100, Read_SWT (resample s j)])
            [0..<Suc k]))
   \<and> (\<exists>k<256. (\<forall>j<k. resample s j = 0x02) \<and> (Suc k < 256 \<longrightarrow> resample s k \<noteq> 0x02)
      \<and> emitted s (LED_Pattern_3 s) =
          [Write_P1 (P1_OUT s AND 0xFE), Write_P2 ((P2_OUT s AND 0xF8) OR 0x04)] @
          concat (map (\<lambda>j. [Write_P9 (of_nat (255 - j)), Delay1ms 100, Read_SWT (resample s j)])
            [0..<Suc k]))
   \<and> (\<exists>k<8. (\<forall>j<k. resample s j = 0x08) \<and> (Suc k < 8 \<longrightarrow> resample s k \<noteq> 0x08)
      \<and> map_option (emitted s) (LED_Pattern_5 s) =
          Some ([Write_P1 (P1_OUT s AND 0xFE), Write_P2 (P2_OUT s AND 0xF8)] @
            concat (map (\<lambda>j. [Write_P9 (2 ^ j), Delay1ms 500, Read_SWT (resample s j)])
              [0..<Suc k])))
   \<and> ((\<exists>k. (\<forall>j<k. resample s j = 0x04) \<and> resample s k \<noteq> 0x04
         \<and> map_option (emitted s) (LED_Pattern_4 s) =
             Some (concat (map (\<lambda>j. blink_cycle s @ [Read_SWT (resample s j)]) [0..<Suc k])))
      \<or> ((\<forall>j. resample s j = 0x04) \<and> LED_Pattern_4 s = None
         \<and> (\<forall>n. emitted s (((\<lambda>s. snd (LED_Pattern_4_body s)) ^^ n) s) =
               concat (map (\<lambda>j. blink_cycle s @ [Read_SWT 0x04]) [0..<n]))))"
proof (intro conjI)
  obtain k where k: "k < 256" "\<forall>j<k. resample s j = 0x01" "Suc k < 256 \<longrightarrow> resample s k \<noteq> 0x01"
    using last_iteration_exists [of 256 "resample s" "0x01"] by auto
  show "\<exists>k<256. (\<forall>j<k. resample s j = 0x01) \<and> (Suc k < 256 \<longrightarrow> resample s k \<noteq> 0x01)
      \<and> emitted s (LED_Pattern_2 s) =
          [Write_P1 ((P1_OUT s AND 0xFE) OR 0x01), Write_P2 ((P2_OUT s AND 0xF8) OR 0x01)] @
          concat (map (\<lambda>j. [Write_P9 (of_nat j), Delay1ms 100, Read_SWT (resample s j)])
            [0..<Suc k])"
    using k emitted_append [OF LED_Pattern_2_run(1) [OF k]] by blast
next
  obtain k where k: "k < 256" "\<forall>j<k. resample s j = 0x02" "Suc k < 256 \<longrightarrow> resample s k \<noteq> 0x02"
    using last_iteration_exists [of 256 "resample s" "0x02"] by auto
  show "\<exists>k<256. (\<forall>j<k. resample s j = 0x02) \<and> (Suc k < 256 \<longrightarrow> resample s k \<noteq> 0x02)
      \<and> emitted s (LED_Pattern_3 s) =
          [Write_P1 (P1_OUT s AND 0xFE), Write_P2 ((P2_OUT s AND 0xF8) OR 0x04)] @
          concat (map (\<lambda>j. [Write_P9 (of_nat (255 - j)), Delay1ms 100, Read_SWT (resample s j)])
            [0..<Suc k])"
    using k emitted_append [OF LED_Pattern_3_run(1) [OF k]] by blast
next
  obtain k where k: "k < 8" "\<forall>j<k. resample s j = 0x08" "Suc k < 8 \<longrightarrow> resample s k \<noteq> 0x08"
    using last_iteration_exists [of 8 "resample s" "0x08"] by auto
  from LED_Pattern_5_run [OF k] obtain t where t: "LED_Pattern_5 s = Some t"
    and tr: "trace t = trace s @
           [Write_P1 (P1_OUT s AND 0xFE), Write_P2 (P2_OUT s AND 0xF8)] @
           concat (map (\<lambda>j. [Write_P9 (2 ^ j), Delay1ms 500, Read_SWT (resample s j)]) [0..<Suc k])"
    by blast
  have "map_option (emitted s) (LED_Pattern_5 s) =
          Some ([Write_P1 (P1_OUT s AND 0xFE), Write_P2 (P2_OUT s AND 0xF8)] @
            concat (map (\<lambda>j. [Write_P9 (2 ^ j), Delay1ms 500, Read_SWT (resample s j)])
              [0..<Suc k]))"
    using t emitted_append [OF tr] by simp
  then show "\<exists>k<8. (\<forall>j<k. resample s j = 0x08) \<and> (Suc k < 8 \<longrightarrow> resample s k \<noteq> 0x08)
      \<and> map_option (emitted s) (LED_Pattern_5 s) =
          Some ([Write_P1 (P1_OUT s AND 0xFE), Write_P2 (P2_OUT s AND 0xF8)] @
            concat (map (\<lambda>j. [Write_P9 (2 ^ j), Delay1ms 500, Read_SWT (resample s j)])
              [0..<Suc k]))"
    using k by blast
next
  show "(\<exists>k. (\<forall>j<k. resample s j = 0x04) \<and> resample s k \<noteq> 0x04
         \<and> map_option (emitted s) (LED_Pattern_4 s) =
             Some (concat (map (\<lambda>j. blink_cycle s @ [Read_SWT (resample s j)]) [0..<Suc k])))
      \<or> ((\<forall>j. resample s j = 0x04) \<and> LED_Pattern_4 s = None
         \<and> (\<forall>n. emitted s (((\<lambda>s. snd (LED_Pattern_4_body s)) ^^ n) s) =
               concat (map (\<lambda>j. blink_cycle s @ [Read_SWT 0x04]) [0..<n])))"
  proof (cases "\<forall>j. resample s j = 0x04")
    case True
    have "emitted s (((\<lambda>s. snd (LED_Pattern_4_body s)) ^^ n) s) =
        concat (map (\<lambda>j. blink_cycle s @ [Read_SWT 0x04]) [0..<n])" for n
    proof -
      have "trace (((\<lambda>s. snd (LED_Pattern_4_body s)) ^^ n) s) = trace s @
          concat (map (\<lambda>j. blink_cycle s @ [Read_SWT (resample s j)]) [0..<n])"
        using LED_Pattern_4_iterate [of n s] True by simp
      then show ?thesis
        using True by simp
    qed
    then show ?thesis
      using True LED_Pattern_4_never [OF True] by blast
  next
    case False
    then obtain k where k: "\<forall>j<k. resample s j = 0x04" "resample s k \<noteq> 0x04"
      using first_difference_exists [of "resample s" "0x04"] by auto
    from LED_Pattern_4_run [OF k] obtain t where t: "LED_Pattern_4 s = Some t"
      and tr: "trace t = trace s @
          concat (map (\<lambda>j. blink_cycle s @ [Read_SWT (resample s j)]) [0..<Suc k])"
      by blast
    have "map_option (emitted s) (LED_Pattern_4 s) =
        Some (concat (map (\<lambda>j. blink_cycle s @ [Read_SWT (resample s j)]) [0..<Suc k]))"
      using t emitted_append [OF tr] by simp
    then show ?thesis
      using k by blast
  qed
qed

theorem C6_sample_after_effect_witness:
  "emitted (hw_until 0x01 2) (LED_Pattern_2 (hw_until 0x01 2)) =
     [Write_P1 0x01, Write_P2 0x01,
      Write_P9 0, Delay1ms 100, Read_SWT 0x01,
      Write_P9 1, Delay1ms 100, Read_SWT 0x01,
      Write_P9 2, Delay1ms 100, Read_SWT 0x00]
   \<and> emitted (hw_until 0x02 2) (LED_Pattern_3 (hw_until 0x02 2)) =
     [Write_P1 0x00, Write_P2 0x04,
      Write_P9 255, Delay1ms 100, Read_SWT 0x02,
      Write_P9 254, Delay1ms 100, Read_SWT 0x02,
      Write_P9 253, Delay1ms 100, Read_SWT 0x00]
   \<and> map_option (emitted (hw_until 0x08 2)) (LED_Pattern_5 (hw_until 0x08 2)) =
     Some [Write_P1 0x00, Write_P2 0x00,
           Write_P9 1, Delay1ms 500, Read_SWT 0x08,
           Write_P9 2, Delay1ms 500, Read_SWT 0x08,
           Write_P9 4, Delay1ms 500, Read_SWT 0x00]
   \<and> map_option (emitted (hw_until 0x04 1)) (LED_Pattern_4 (hw_until 0x04 1)) =
     Some [Write_P9 0xFF, Write_P1 0x01, Write_P2 0x04, Delay1ms 1000,
           Write_P9 0x00, Write_P1 0x00, Write_P2 0x00, Delay1ms 1000, Read_SWT 0x04,
           Write_P9 0xFF, Write_P1 0x01, Write_P2 0x04, Delay1ms 1000,
           Write_P9 0x00, Write_P1 0x00, Write_P2 0x00, Delay1ms 1000, Read_SWT 0x00]
   \<and> LED_Pattern_4 (hw_held 0x04) = None"
proof (intro conjI)
  have three: "[0..<3] = [0, 1, 2]"
    by (simp add: upt_rec)
  have regs: "P1_OUT (hw_until c n) = 0" "P2_OUT (hw_until c n) = 0" for c n
    by (simp_all add: hw_until_def)
  {
    let ?s = "hw_until 0x01 2"
    from C6_sample_after_effect [of ?s, THEN conjunct1]
    obtain k where k: "k < 256" "\<forall>j<k. resample ?s j = 0x01"
      "Suc k < 256 \<longrightarrow> resample ?s k \<noteq> 0x01"
      and e: "emitted ?s (LED_Pattern_2 ?s) =
          [Write_P1 ((P1_OUT ?s AND 0xFE) OR 0x01), Write_P2 ((P2_OUT ?s AND 0xF8) OR 0x01)] @
          concat (map (\<lambda>j. [Write_P9 (of_nat j), Delay1ms 100, Read_SWT (resample ?s j)])
            [0..<Suc k])"
      by blast
    have "k = 2"
      by (rule last_iteration_unique [OF k(2,3,1), of 2]) (simp_all add: resample_hw_until)
    then show "emitted ?s (LED_Pattern_2 ?s) =
       [Write_P1 0x01, Write_P2 0x01,
        Write_P9 0, Delay1ms 100, Read_SWT 0x01,
        Write_P9 1, Delay1ms 100, Read_SWT 0x01,
        Write_P9 2, Delay1ms 100, Read_SWT 0x00]"
      using e by (simp add: three regs resample_hw_until)
  }
  {
    let ?s = "hw_until 0x02 2"
    from C6_sample_after_effect [of ?s, THEN conjunct2, THEN conjunct1]
    obtain k where k: "k < 256" "\<forall>j<k. resample ?s j = 0x02"
      "Suc k < 256 \<longrightarrow> resample ?s k \<noteq> 0x02"
      and e: "emitted ?s (LED_Pattern_3 ?s) =
          [Write_P1 (P1_OUT ?s AND 0xFE), Write_P2 ((P2_OUT ?s AND 0xF8) OR 0x04)] @
          concat (map (\<lambda>j. [Write_P9 (of_nat (255 - j)), Delay1ms 100, Read_SWT (resample ?s j)])
            [0..<Suc k])"
      by blast
    have "k = 2"
      by (rule last_iteration_unique [OF k(2,3,1), of 2]) (simp_all add: resample_hw_until)
    then show "emitted ?s (LED_Pattern_3 ?s) =
       [Write_P1 0x00, Write_P2 0x04,
        Write_P9 255, Delay1ms 100, Read_SWT 0x02,
        Write_P9 254, Delay1ms 100, Read_SWT 0x02,
        Write_P9 253, Delay1ms 100, Read_SWT 0x00]"
      using e by (simp add: three regs resample_hw_until)
  }
  {
    let ?s = "hw_until 0x08 2"
    from C6_sample_after_effect [of ?s, THEN conjunct2, THEN conjunct2, THEN conjunct1]
    obtain k where k: "k < 8" "\<forall>j<k. resample ?s j = 0x08"
      "Suc k < 8 \<longrightarrow> resample ?s k \<noteq> 0x08"
      and e: "map_option (emitted ?s) (LED_Pattern_5 ?s) =
          Some ([Write_P1 (P1_OUT ?s AND 0xFE), Write_P2 (P2_OUT ?s AND 0xF8)] @
            concat (map (\<lambda>j. [Write_P9 (2 ^ j), Delay1ms 500, Read_SWT (resample ?s j)])
              [0..<Suc k]))"
      by blast
    have "k = 2"
      by (rule last_iteration_unique [OF k(2,3,1), of 2]) (simp_all add: resample_hw_until)
    then show "map_option (emitted ?s) (LED_Pattern_5 ?s) =
       Some [Write_P1 0x00, Write_P2 0x00,
             Write_P9 1, Delay1ms 500, Read_SWT 0x08,
             Write_P9 2, Delay1ms 500, Read_SWT 0x08,
             Write_P9 4, Delay1ms 500, Read_SWT 0x00]"
      using e by (simp add: three regs resample_hw_until)
  }
  {
    let ?s = "hw_until 0x04 1"
    have two: "[0..<2] = [0, 1]"
      by (simp add: upt_rec)
    have "\<not> (\<forall>j. resample ?s j = 0x04)"
      by (simp add: resample_hw_until exI [of _ 1])
    with C6_sample_after_effect [of ?s, THEN conjunct2, THEN conjunct2, THEN conjunct2]
    obtain k where k: "\<forall>j<k. resample ?s j = 0x04" "resample ?s k \<noteq> 0x04"
      and e: "map_option (emitted ?s) (LED_Pattern_4 ?s) =
             Some (concat (map (\<lambda>j. blink_cycle ?s @ [Read_SWT (resample ?s j)]) [0..<Suc k]))"
      by blast
    have "k = 1"
      by (rule first_difference_unique [OF k, of 1]) (simp_all add: resample_hw_until)
    then show "map_option (emitted ?s) (LED_Pattern_4 ?s) =
       Some [Write_P9 0xFF, Write_P1 0x01, Write_P2 0x04, Delay1ms 1000,
             Write_P9 0x00, Write_P1 0x00, Write_P2 0x00, Delay1ms 1000, Read_SWT 0x04,
             Write_P9 0xFF, Write_P1 0x01, Write_P2 0x04, Delay1ms 1000,
             Write_P9 0x00, Write_P1 0x00, Write_P2 0x00, Delay1ms 1000, Read_SWT 0x00]"
      using e by (simp add: two regs resample_hw_until blink_cycle_def)
  }
  {
    let ?s = "hw_held 0x04"
    have "\<not> (\<exists>k. (\<forall>j<k. resample ?s j = 0x04) \<and> resample ?s k \<noteq> 0x04
         \<and> map_option (emitted ?s) (LED_Pattern_4 ?s) =
             Some (concat (map (\<lambda>j. blink_cycle ?s @ [Read_SWT (resample ?s j)]) [0..<Suc k])))"
      by (simp add: resample_hw_held)
    with C6_sample_after_effect [of ?s, THEN conjunct2, THEN conjunct2, THEN conjunct2]
    show "LED_Pattern_4 ?s = None"
      by blast
  }
qed

text \<open>
  C7. For every button-state code other than 0x00, 0x10, 0x02 and 0x12,
  \<open>LED_Pattern_1\<close> writes nothing and waits for nothing: it returns the state it was
  given, registers and trace unchanged.
\<close>

theorem C7_pattern_1_other_buttons:
  "button_status \<notin> {0x00, 0x10, 0x02, 0x12} \<Longrightarrow> LED_Pattern_1 button_status s = s"
  by (simp add: LED_Pattern_1_def)

theorem C7_pattern_1_other_buttons_witness:
  "(0x01 :: uint8_t) \<notin> {0x00, 0x10, 0x02, 0x12}
   \<and> LED_Pattern_1 0x01 (hw_held 0x00) = hw_held 0x00"
  using C7_pattern_1_other_buttons [of "0x01" "hw_held 0x00"] by simp

text \<open>
  C8. \<open>LED_Controller\<close> is deterministic in its inputs and its environment. Take two
  runs with the same button and switch codes, from states with equal output registers,
  such that every resample the first run makes returns the same switch code in the
  second; the states may differ in their traces, in the reads made before, in the upper
  four bits of the input register and in everything the switches do after the run.
  Then either both runs return, having made the same sequence of writes, delays and
  samples and leaving equal output registers, or neither returns (pattern 4, the
  switches held at 0x04 for ever) and the two have made the same sequence after any
  number of iterations.
\<close>

theorem C8_controller_deterministic:
  assumes "P1_OUT s1 = P1_OUT s2" and "P2_OUT s1 = P2_OUT s2" and "P9_OUT s1 = P9_OUT s2"
    and "\<forall>j. resamples_made s1 (LED_Controller button_status switch_status s1) j \<longrightarrow>
           resample s1 j = resample s2 j"
  shows "(LED_Controller button_status switch_status s1 = None
          \<and> LED_Controller button_status switch_status s2 = None
          \<and> (\<forall>n. emitted s1 (((\<lambda>s. snd (LED_Pattern_4_body s)) ^^ n) s1) =
                  emitted s2 (((\<lambda>s. snd (LED_Pattern_4_body s)) ^^ n) s2)))
       \<or> (\<exists>t1 t2. LED_Controller button_status switch_status s1 = Some t1
             \<and> LED_Controller button_status switch_status s2 = Some t2
             \<and> emitted s1 t1 = emitted s2 t2
             \<and> P1_OUT t1 = P1_OUT t2 \<and> P2_OUT t1 = P2_OUT t2 \<and> P9_OUT t1 = P9_OUT t2)"
proof -
  consider (p1) "switch_status \<notin> {0x01, 0x02, 0x04, 0x08}" | (p2) "switch_status = 0x01"
    | (p3) "switch_status = 0x02" | (p4) "switch_status = 0x04" | (p5) "switch_status = 0x08"
    by auto
  then show ?thesis
  proof cases
    case p1
    then have "LED_Controller button_status switch_status s1 = Some (LED_Pattern_1 button_status s1)"
      "LED_Controller button_status switch_status s2 = Some (LED_Pattern_1 button_status s2)"
      by (simp_all add: LED_Controller_def)
    then show ?thesis
      using LED_Pattern_1_same [OF assms(1-3), of button_status] by simp
  next
    case p2
    then have eq: "LED_Controller button_status switch_status s1 = Some (LED_Pattern_2 s1)"
      "LED_Controller button_status switch_status s2 = Some (LED_Pattern_2 s2)"
      by (simp_all add: LED_Controller_def)
    show ?thesis
      using LED_Pattern_2_same [OF assms(1,2)] assms(4) unfolding eq by simp
  next
    case p3
    then have eq: "LED_Controller button_status switch_status s1 = Some (LED_Pattern_3 s1)"
      "LED_Controller button_status switch_status s2 = Some (LED_Pattern_3 s2)"
      by (simp_all add: LED_Controller_def)
    show ?thesis
      using LED_Pattern_3_same [OF assms(1,2)] assms(4) unfolding eq by simp
  next
    case p4
    then have eq: "LED_Controller button_status switch_status s1 = LED_Pattern_4 s1"
      "LED_Controller button_status switch_status s2 = LED_Pattern_4 s2"
      by (simp_all add: LED_Controller_def)
    show ?thesis
      using LED_Pattern_4_same [OF assms(1,2)] assms(4) unfolding eq by blast
  next
    case p5
    then have eq: "LED_Controller button_status switch_status s1 = LED_Pattern_5 s1"
      "LED_Controller button_status switch_status s2 = LED_Pattern_5 s2"
      by (simp_all add: LED_Controller_def)
    show ?thesis
      using LED_Pattern_5_same [OF assms(1,2)] assms(4) unfolding eq by blast
  qed
qed

theorem C8_controller_deterministic_witness:
  "emitted (hw_held 0x00) (LED_Pattern_1 0x10 (hw_held 0x00)) =
     emitted (hw_held 0x03) (LED_Pattern_1 0x10 (hw_held 0x03))
   \<and> emitted (hw_until 0x01 3) (LED_Pattern_2 (hw_until 0x01 3)) =
     emitted \<lparr>P1_OUT = 0, P2_OUT = 0, P9_OUT = 0,
              P10_IN = (\<lambda>k. if k < 10 then 0xF1 else if k = 10 then 0xF0 else 0xFF),
              P10_reads = 7, trace = [Delay1ms 100]\<rparr>
       (LED_Pattern_2 \<lparr>P1_OUT = 0, P2_OUT = 0, P9_OUT = 0,
              P10_IN = (\<lambda>k. if k < 10 then 0xF1 else if k = 10 then 0xF0 else 0xFF),
              P10_reads = 7, trace = [Delay1ms 100]\<rparr>)"
proof (intro conjI)
  let ?a = "hw_held 0x00" and ?b = "hw_held 0x03"
  have ra: "LED_Controller 0x10 0x00 ?a = Some (LED_Pattern_1 0x10 ?a)"
    and rb: "LED_Controller 0x10 0x00 ?b = Some (LED_Pattern_1 0x10 ?b)"
    by (simp_all add: LED_Controller_def)
  have none: "\<forall>j. resamples_made ?a (LED_Controller 0x10 0x00 ?a) j \<longrightarrow> resample ?a j = resample ?b j"
    unfolding ra by (simp add: resamples_made_def LED_Pattern_1_no_resample)
  have "P1_OUT ?a = P1_OUT ?b" "P2_OUT ?a = P2_OUT ?b" "P9_OUT ?a = P9_OUT ?b"
    by (simp_all add: hw_held_def)
  from C8_controller_deterministic [OF this none]
  show "emitted ?a (LED_Pattern_1 0x10 ?a) = emitted ?b (LED_Pattern_1 0x10 ?b)"
    unfolding ra rb by simp
next
  let ?a = "hw_until 0x01 3"
  let ?b = "\<lparr>P1_OUT = 0, P2_OUT = 0, P9_OUT = 0,
              P10_IN = (\<lambda>k. if k < 10 then 0xF1 else if k = 10 then 0xF0 else 0xFF),
              P10_reads = 7, trace = [Delay1ms 100]\<rparr> :: hw"
  have ra: "LED_Controller 0x12 0x01 ?a = Some (LED_Pattern_2 ?a)"
    and rb: "LED_Controller 0x12 0x01 ?b = Some (LED_Pattern_2 ?b)"
    by (simp_all add: LED_Controller_def)
  have made: "P10_reads (LED_Pattern_2 ?a) = P10_reads ?a + Suc 3"
    by (rule LED_Pattern_2_run(2)) (simp_all add: resample_hw_until)
  have four: "resample ?a j = resample ?b j" if "j < 4" for j
    using that by (simp add: resample_eq hw_until_def)
  have reads: "\<forall>j. resamples_made ?a (LED_Controller 0x12 0x01 ?a) j \<longrightarrow> resample ?a j = resample ?b j"
    unfolding ra using four by (simp add: resamples_made_def made)
  have "P1_OUT ?a = P1_OUT ?b" "P2_OUT ?a = P2_OUT ?b" "P9_OUT ?a = P9_OUT ?b"
    by (simp_all add: hw_until_def)
  from C8_controller_deterministic [OF this reads]
  show "emitted ?a (LED_Pattern_2 ?a) = emitted ?b (LED_Pattern_2 ?b)"
    unfolding ra rb by simp
qed

text \<open>
  C9, as stated: for every 8-bit argument, \<open>LED1_Output\<close> changes only bit 0 of the
  port 1 output register and \<open>LED2_Output\<close> only bits 0..2 of the port 2 output
  register. It fails for an argument with a bit set outside the field: the argument is
  not masked, so \<open>LED1_Output 0x02\<close> sets bit 1 and \<open>LED2_Output 0x08\<close> sets bit 3.
\<close>

theorem C9_led_output_frame_counterexample:
  "P1_OUT (LED1_Output 0x02 (hw_held 0x00)) AND 0xFE \<noteq> P1_OUT (hw_held 0x00) AND 0xFE
   \<and> P2_OUT (LED2_Output 0x08 (hw_held 0x00)) AND 0xF8 \<noteq> P2_OUT (hw_held 0x00) AND 0xF8"
  by (simp add: LED1_Output_def LED2_Output_def hw_held_def Let_def)

text \<open>
  C9, amended: for every argument whose bits 1..7 are clear, \<open>LED1_Output\<close> leaves
  bits 1..7 of the port 1 output register unchanged, and for every argument whose bits
  3..7 are clear, \<open>LED2_Output\<close> leaves bits 3..7 of the port 2 output register
  unchanged. For any argument, the bits of the register outside the field are their old
  values or-ed with the argument's bits there.
\<close>

theorem C9_led_output_frame:
  "(led_value AND 0xFE = 0 \<longrightarrow>
      P1_OUT (LED1_Output led_value s) AND 0xFE = P1_OUT s AND 0xFE)
   \<and> (led_value AND 0xF8 = 0 \<longrightarrow>
      P2_OUT (LED2_Output led_value s) AND 0xF8 = P2_OUT s AND 0xF8)
   \<and> P1_OUT (LED1_Output led_value s) AND 0xFE = (P1_OUT s AND 0xFE) OR (led_value AND 0xFE)
   \<and> P2_OUT (LED2_Output led_value s) AND 0xF8 = (P2_OUT s AND 0xF8) OR (led_value AND 0xF8)"
  by (simp add: LED1_Output_def LED2_Output_def Let_def word_ao_dist word_bw_assocs)

theorem C9_led_output_frame_witness:
  "(0x01 :: uint8_t) AND 0xFE = 0
   \<and> P1_OUT (LED1_Output 0x01 (hw_held 0x00\<lparr>P1_OUT := 0x12\<rparr>)) AND 0xFE = 0x12
   \<and> (0x05 :: uint8_t) AND 0xF8 = 0
   \<and> P2_OUT (LED2_Output 0x05 (hw_held 0x00\<lparr>P2_OUT := 0xF8\<rparr>)) AND 0xF8 = 0xF8"
  using C9_led_output_frame [of "0x01" "hw_held 0x00\<lparr>P1_OUT := 0x12\<rparr>"]
        C9_led_output_frame [of "0x05" "hw_held 0x00\<lparr>P2_OUT := 0xF8\<rparr>"]
  by (simp add: hw_held_def)

text \<open>
  C10. Whatever the switches are, the first three visible actions of \<open>LED_Pattern_2\<close>
  are: onboard LED on, tri-color LED red (code 0x01), first write (0) to the 8-LED bank.
  The loop writes neither LED register, so both settings are still in place when the
  routine returns.
\<close>

theorem C10_pattern_2_setup:
  "take 3 (emitted s (LED_Pattern_2 s)) =
     [Write_P1 ((P1_OUT s AND 0xFE) OR RED_LED_ON),
      Write_P2 ((P2_OUT s AND 0xF8) OR RGB_LED_RED),
      Write_P9 0x00]
   \<and> LED1_Status (LED2_Output RGB_LED_RED (LED1_Output RED_LED_ON s)) = RED_LED_ON
   \<and> LED2_Status (LED2_Output RGB_LED_RED (LED1_Output RED_LED_ON s)) = RGB_LED_RED
   \<and> RGB_LED_RED = 0x01
   \<and> P1_OUT (LED_Pattern_2 s) = (P1_OUT s AND 0xFE) OR RED_LED_ON
   \<and> P2_OUT (LED_Pattern_2 s) = (P2_OUT s AND 0xF8) OR RGB_LED_RED
   \<and> LED1_Status (LED_Pattern_2 s) = RED_LED_ON
   \<and> LED2_Status (LED_Pattern_2 s) = RGB_LED_RED"
proof -
  let ?s0 = "LED2_Output RGB_LED_RED (LED1_Output RED_LED_ON s)"
  obtain k where k: "k < 256" "\<forall>j<k. resample s j = 0x01" "Suc k < 256 \<longrightarrow> resample s k \<noteq> 0x01"
    using last_iteration_exists [of 256 "resample s" "0x01"] by auto
  note run = LED_Pattern_2_run [OF k]
  have upt: "[0..<Suc k] = 0 # [1..<Suc k]"
    by (simp add: upt_rec)
  have first: "take 3 (emitted s (LED_Pattern_2 s)) =
     [Write_P1 ((P1_OUT s AND 0xFE) OR RED_LED_ON),
      Write_P2 ((P2_OUT s AND 0xF8) OR RGB_LED_RED),
      Write_P9 0x00]"
    unfolding emitted_append [OF run(1)] upt by (simp add: led_constants)
  have fin: "P1_OUT (LED_Pattern_2 s) = (P1_OUT s AND 0xFE) OR RED_LED_ON"
    "P2_OUT (LED_Pattern_2 s) = (P2_OUT s AND 0xF8) OR RGB_LED_RED"
    using run(3,4) by (simp_all add: led_constants)
  have st: "LED1_Status ?s0 = RED_LED_ON" "LED2_Status ?s0 = RGB_LED_RED"
    by (simp_all add: LED1_Status_def LED2_Status_def access_defs led_constants
        word_ao_dist word_bw_assocs)
  have st': "LED1_Status (LED_Pattern_2 s) = RED_LED_ON" "LED2_Status (LED_Pattern_2 s) = RGB_LED_RED"
    by (simp_all add: LED1_Status_def LED2_Status_def fin led_constants
        word_ao_dist word_bw_assocs)
  show ?thesis
    using first st st' fin by (simp add: RGB_LED_RED_def)
qed

end
